theory Spec2Isabelle
  imports Main "HOL-Library.Log_Nat"
begin

section \<open>JavaScript numbers\<close>

text \<open>
  The interpreter computes with JavaScript numbers, which are IEEE 754 doubles. A finite
  double is a rational number, so a number is modelled as a rational, one of the two
  infinities, or \<open>NaN\<close>. The negative zero is identified with zero: the program only
  compares numbers, adds and subtracts them and prints them, and none of these tells the
  two zeros apart.

  Arithmetic rounds its exact result to the nearest double, ties to even
  (\<open>round_double\<close>): \<open>round_magnitude\<close> keeps 53 significant bits of a positive
  rational (fewer below \<open>2 ^ -1022\<close>, where the spacing of doubles stays \<open>2 ^ -1074\<close>),
  and a rounded magnitude of \<open>2 ^ 1024\<close> or more is an infinity.
\<close>

datatype jsnum = Fin rat | PInf | NInf | NaN

definition pow2 :: "int \<Rightarrow> rat" where
  "pow2 e = (if 0 \<le> e then 2 ^ nat e else 1 / 2 ^ nat (- e))"

text \<open>\<open>ilog2 x\<close> is the integer \<open>e\<close> with \<open>2 ^ e \<le> x < 2 ^ (e + 1)\<close>, for \<open>x > 0\<close>.\<close>

definition ilog2 :: "rat \<Rightarrow> int" where
  "ilog2 x = (case quotient_of x of (n, d) \<Rightarrow>
     let e = bitlen n - bitlen d in if pow2 e \<le> x then e else e - 1)"

definition overflow_threshold :: rat where
  "overflow_threshold = 2 ^ 1024"

definition round_magnitude :: "rat \<Rightarrow> rat" where
  "round_magnitude m =
     (let p = max (ilog2 m - 52) (- 1074);
          s = m / pow2 p;
          q = \<lfloor>s\<rfloor>;
          f = s - of_int q;
          q' = (if 1 / 2 < f \<or> (f = 1 / 2 \<and> odd q) then q + 1 else q)
      in of_int q' * pow2 p)"

definition round_double :: "rat \<Rightarrow> jsnum" where
  "round_double x =
     (if x = 0 then Fin 0
      else let r = round_magnitude \<bar>x\<bar>
           in if overflow_threshold \<le> r then (if 0 < x then PInf else NInf)
              else Fin (sgn x * r))"

definition isNaN :: "jsnum \<Rightarrow> bool" where
  "isNaN n = (n = NaN)"

fun js_neg :: "jsnum \<Rightarrow> jsnum" where
  "js_neg (Fin x) = Fin (- x)"
| "js_neg PInf = NInf"
| "js_neg NInf = PInf"
| "js_neg NaN = NaN"

fun js_add :: "jsnum \<Rightarrow> jsnum \<Rightarrow> jsnum" where
  "js_add NaN _ = NaN"
| "js_add _ NaN = NaN"
| "js_add (Fin x) (Fin y) = round_double (x + y)"
| "js_add PInf NInf = NaN"
| "js_add NInf PInf = NaN"
| "js_add PInf _ = PInf"
| "js_add _ PInf = PInf"
| "js_add NInf _ = NInf"
| "js_add _ NInf = NInf"

definition js_sub :: "jsnum \<Rightarrow> jsnum \<Rightarrow> jsnum" where
  "js_sub x y = js_add x (js_neg y)"

fun js_abs :: "jsnum \<Rightarrow> jsnum" where
  "js_abs (Fin x) = Fin \<bar>x\<bar>"
| "js_abs PInf = PInf"
| "js_abs NInf = PInf"
| "js_abs NaN = NaN"

text \<open>The comparisons \<open><\<close>, \<open><=\<close>, \<open>===\<close> and \<open>!==\<close> on numbers; any comparison with
  \<open>NaN\<close> but \<open>!==\<close> is false.\<close>

fun js_lt :: "jsnum \<Rightarrow> jsnum \<Rightarrow> bool" where
  "js_lt NaN _ = False"
| "js_lt _ NaN = False"
| "js_lt (Fin x) (Fin y) = (x < y)"
| "js_lt _ NInf = False"
| "js_lt PInf _ = False"
| "js_lt NInf _ = True"
| "js_lt _ PInf = True"

definition js_eq :: "jsnum \<Rightarrow> jsnum \<Rightarrow> bool" where
  "js_eq x y = (x = y \<and> x \<noteq> NaN)"

definition js_neq :: "jsnum \<Rightarrow> jsnum \<Rightarrow> bool" where
  "js_neq x y = (\<not> js_eq x y)"

definition js_le :: "jsnum \<Rightarrow> jsnum \<Rightarrow> bool" where
  "js_le x y = (js_lt x y \<or> js_eq x y)"

definition js_gt :: "jsnum \<Rightarrow> jsnum \<Rightarrow> bool" where
  "js_gt x y = js_lt y x"

definition js_ge :: "jsnum \<Rightarrow> jsnum \<Rightarrow> bool" where
  "js_ge x y = js_le y x"

text \<open>\<open>Math.max\<close> and \<open>Math.min\<close> of two numbers.\<close>

definition Math_max :: "jsnum \<Rightarrow> jsnum \<Rightarrow> jsnum" where
  "Math_max x y = (if isNaN x \<or> isNaN y then NaN else if js_lt x y then y else x)"

definition Math_min :: "jsnum \<Rightarrow> jsnum \<Rightarrow> jsnum" where
  "Math_min x y = (if isNaN x \<or> isNaN y then NaN else if js_lt y x then y else x)"

text \<open>A truth value pushed as a number: \<open>cond ? 1 : 0\<close>.\<close>

definition bool_num :: "bool \<Rightarrow> jsnum" where
  "bool_num c = (if c then Fin 1 else Fin 0)"

section \<open>Values and the built-in conversions\<close>

text \<open>
  A stack holds JavaScript values: numbers pushed by the opcodes, the strings of the
  initial stacks and of \<open>OP_CAT\<close> and \<open>OP_HASH\<close>, and \<open>undefined\<close>, which an array
  read outside the array returns.

  \<open>Number\<close> applied to a string and \<open>String\<close> applied to a number are built-ins of the
  language, not code of the repository: they are parameters of the semantics, so that
  every theorem holds whatever they compute.
\<close>

datatype val = Num jsnum | Str string | Undefined

record builtins =
  Number_of_string :: "string \<Rightarrow> jsnum"
  String_of_number :: "jsnum \<Rightarrow> string"

fun Number :: "builtins \<Rightarrow> val \<Rightarrow> jsnum" where
  "Number J (Num n) = n"
| "Number J (Str s) = Number_of_string J s"
| "Number J Undefined = NaN"

fun String :: "builtins \<Rightarrow> val \<Rightarrow> string" where
  "String J (Num n) = String_of_number J n"
| "String J (Str s) = s"
| "String J Undefined = ''undefined''"

text \<open>Strict equality \<open>===\<close> on values: no coercion, and \<open>NaN\<close> equals nothing.\<close>

fun strict_equal :: "val \<Rightarrow> val \<Rightarrow> bool" where
  "strict_equal (Num x) (Num y) = js_eq x y"
| "strict_equal (Str s) (Str t) = (s = t)"
| "strict_equal Undefined Undefined = True"
| "strict_equal _ _ = False"

section \<open>Exceptions and results (utils.js)\<close>

datatype exn = ResultException string

text \<open>A computation that may throw is a sum: \<open>Inl\<close> the exception.\<close>

definition Err :: "string \<Rightarrow> exn + 'a" where
  "Err msg = Inl (ResultException msg)"

definition bnd :: "exn + 'a \<Rightarrow> ('a \<Rightarrow> exn + 'b) \<Rightarrow> exn + 'b" where
  "bnd m f = (case m of Inl e \<Rightarrow> Inl e | Inr x \<Rightarrow> f x)"

definition to_number :: "builtins \<Rightarrow> val \<Rightarrow> exn + jsnum" where
  "to_number J v =
     (let num = Number J v
      in if isNaN num then Inl (ResultException ''Invalid number'') else Inr num)"

section \<open>The stack (stack.js)\<close>

text \<open>
  \<open>Stack.items\<close> is an array whose last element is the top of the stack; the list keeps
  the array's order.
\<close>

type_synonym Stack = "val list"

definition push :: "val \<Rightarrow> Stack \<Rightarrow> Stack" where
  "push v items = items @ [v]"

definition pop :: "Stack \<Rightarrow> exn + (val \<times> Stack)" where
  "pop items =
     (if length items = 0 then Err ''Oops, the stack is empty!''
      else Inr (last items, butlast items))"

definition peek :: "Stack \<Rightarrow> exn + val" where
  "peek items =
     (if length items = 0 then Err ''Oops, the stack is empty!''
      else Inr (last items))"

text \<open>An array read \<open>items[i]\<close>: \<open>undefined\<close> unless \<open>i\<close> is an index of the array.\<close>

definition array_get :: "val list \<Rightarrow> jsnum \<Rightarrow> val" where
  "array_get items i =
     (case i of
        Fin q \<Rightarrow>
          if of_int \<lfloor>q\<rfloor> = q \<and> 0 \<le> q \<and> q < of_nat (length items)
          then items ! nat \<lfloor>q\<rfloor> else Undefined
      | _ \<Rightarrow> Undefined)"

definition peekNth :: "jsnum \<Rightarrow> Stack \<Rightarrow> exn + val" where
  "peekNth elem items =
     (if length items = 0 then Err ''Oops, the stack is empty!''
      else if js_le (Fin (of_nat (length items))) elem then Err ''elem is not available''
      else Inr (array_get items (js_sub (Fin (of_nat (length items) - 1)) elem)))"

definition isEmpty :: "Stack \<Rightarrow> bool" where
  "isEmpty items = (length items = 0)"

definition stack_size :: "Stack \<Rightarrow> nat" where
  "stack_size items = length items"

text \<open>The size of a stack as the number the code compares it with.\<close>

definition size_num :: "Stack \<Rightarrow> jsnum" where
  "size_num items = Fin (of_nat (stack_size items))"

section \<open>Execution state and opcode results (opcodes.js)\<close>

text \<open>
  A \<open>State\<close> owns the two stacks and the optional \<open>if_result\<close> property, absent outside
  an open \<open>OP_IF\<close> or \<open>OP_NOTIF\<close>. An opcode returns the new state or a \<open>StateError\<close>:
  the object \<open>{error, state}\<close> built by \<open>error\<close>, whose message is a string given at
  the call or, in a \<open>catch\<close> block, the exception object that was caught.
\<close>

record State =
  main :: Stack
  alt :: Stack
  if_result :: "bool option"

datatype message = Msg string | Caught exn

type_synonym StateError = "message \<times> State"

definition error :: "message \<Rightarrow> State \<Rightarrow> StateError + State" where
  "error m state = Inl (m, state)"

text \<open>
  Modelled from the spec: \<open>deepCopy\<close> is imported by opcodes.js from utils.js, whose
  text in the repository does not define it. The specification requires copy on
  transition: every opcode works on a new state value and never mutates its input, so
  that the state returned beside an error is the unmodified original. Values are
  immutable here, and the copy of a state is the state.
\<close>

definition deepCopy :: "State \<Rightarrow> State" where
  "deepCopy state = state"

text \<open>
  The body of a \<open>try\<close> block either throws or returns an opcode result;
  \<open>catch (err) { return error(err, state) }\<close> turns the exception into a \<open>StateError\<close>
  on the state the opcode was called with. \<open>return_state\<close> and \<open>return_error\<close> are the
  two \<open>return\<close> statements inside such a block.
\<close>

definition try_catch :: "State \<Rightarrow> exn + (StateError + State) \<Rightarrow> StateError + State" where
  "try_catch state body = (case body of Inl err \<Rightarrow> error (Caught err) state | Inr r \<Rightarrow> r)"

definition return_state :: "State \<Rightarrow> exn + (StateError + State)" where
  "return_state new_state = Inr (Inr new_state)"

definition return_error :: "message \<Rightarrow> State \<Rightarrow> exn + (StateError + State)" where
  "return_error m state = Inr (error m state)"

subsection \<open>Loops of the opcodes\<close>

text \<open>
  \<open>for (let i = 0; i < n; i++) { stack.pop(); }\<close> of the multisig opcodes, entered at
  counter \<open>i\<close>: it ends when the counter reaches \<open>n\<close> or when \<open>pop\<close> throws on the
  empty stack.
\<close>

function pop_loop :: "nat \<Rightarrow> jsnum \<Rightarrow> Stack \<Rightarrow> exn + Stack" where
  "pop_loop i n items =
     (if js_lt (Fin (of_nat i)) n
      then (case pop items of
              Inl e \<Rightarrow> Inl e
            | Inr (v, items') \<Rightarrow> pop_loop (Suc i) n items')
      else Inr items)"
  by pat_completeness auto
termination
  by (relation "measure (\<lambda>(i, n, items). length items)")
     (auto simp: pop_def Err_def split: if_splits)

declare pop_loop.simps [simp del]

text \<open>
  The first loop of \<open>OP_ROLL\<close>, \<open>temp_stack.push(new_state.main.pop())\<close>, with the
  temporary array as an accumulator.
\<close>

function roll_pop :: "nat \<Rightarrow> jsnum \<Rightarrow> Stack \<Rightarrow> val list \<Rightarrow> exn + (val list \<times> Stack)" where
  "roll_pop i n items temp_stack =
     (if js_lt (Fin (of_nat i)) n
      then (case pop items of
              Inl e \<Rightarrow> Inl e
            | Inr (v, items') \<Rightarrow> roll_pop (Suc i) n items' (temp_stack @ [v]))
      else Inr (temp_stack, items))"
  by pat_completeness auto
termination
  by (relation "measure (\<lambda>(i, n, items, temp_stack). length items)")
     (auto simp: pop_def Err_def split: if_splits)

declare roll_pop.simps [simp del]

text \<open>\<open>Array.prototype.pop\<close> on a plain array: \<open>undefined\<close> when the array is empty.\<close>

definition array_pop :: "val list \<Rightarrow> val \<times> val list" where
  "array_pop xs = (if xs = [] then (Undefined, []) else (last xs, butlast xs))"

text \<open>
  The second loop of \<open>OP_ROLL\<close>, \<open>new_state.main.push(temp_stack.pop())\<close>, for a finite
  bound \<open>q\<close>. For a bound that is not finite, \<open>roll_push_all\<close> runs no iteration: this is the
  loop for \<open>-Infinity\<close> (and \<open>NaN\<close>), whose test \<open>i < n\<close> fails at once; with the bound
  \<open>Infinity\<close> the second loop is never reached, because the first loop has then popped the
  stack empty and thrown (lemma \<open>roll_pop_Infinity\<close> below).
\<close>

function roll_push :: "nat \<Rightarrow> rat \<Rightarrow> val list \<Rightarrow> Stack \<Rightarrow> Stack" where
  "roll_push i q temp_stack items =
     (if of_nat i < q
      then (case array_pop temp_stack of
              (v, temp_stack') \<Rightarrow> roll_push (Suc i) q temp_stack' (push v items))
      else items)"
  by pat_completeness auto
termination
proof (relation "measure (\<lambda>(i, q, temp_stack, items). nat \<lceil>q\<rceil> - i)")
  show "wf (measure (\<lambda>(i, q, temp_stack, items). nat \<lceil>q\<rceil> - i))"
    by simp
next
  fix i :: nat and q :: rat and temp_stack items :: "val list" and x :: "val \<times> val list"
    and v :: val and temp_stack' :: "val list"
  assume "of_nat i < q"
  then have "int i < \<lceil>q\<rceil>"
    by (simp add: less_ceiling_iff)
  then show "((Suc i, q, temp_stack', push v items), (i, q, temp_stack, items))
      \<in> measure (\<lambda>(i, q, temp_stack, items). nat \<lceil>q\<rceil> - i)"
    by simp
qed

declare roll_push.simps [simp del]

definition roll_push_all :: "jsnum \<Rightarrow> val list \<Rightarrow> Stack \<Rightarrow> Stack" where
  "roll_push_all n temp_stack items =
     (case n of Fin q \<Rightarrow> roll_push 0 q temp_stack items | _ \<Rightarrow> items)"

subsection \<open>The opcode table\<close>

text \<open>
  One definition per entry of \<open>opcodeList\<close>, in the order of the source. Each statement of
  the source is one line: \<open>pop\<close> returns the popped value and the shorter stack, which the
  next statement works on.
  The repository holds a second variant of this table, which mutates the state it is given;
  the driver imports the table of opcodes.js, the one modelled here.
\<close>

definition OP_0NOTEQUAL :: "builtins \<Rightarrow> State \<Rightarrow> StateError + State" where
  "OP_0NOTEQUAL J state =
     (if stack_size (main state) < 1 then error (Msg ''Need one item for 0NOTEQUAL'') state
      else let new_state = deepCopy state in
        try_catch state
          (bnd (pop (main new_state)) (\<lambda>(val, m1).
           bnd (to_number J val) (\<lambda>num_val.
           return_state (new_state\<lparr>main := push (Num (bool_num (js_neq num_val (Fin 0)))) m1\<rparr>)))))"

definition OP_1ADD :: "builtins \<Rightarrow> State \<Rightarrow> StateError + State" where
  "OP_1ADD J state =
     (let new_state = deepCopy state in
        try_catch state
          (bnd (pop (main new_state)) (\<lambda>(a, m1).
           bnd (to_number J a) (\<lambda>num_a.
           return_state (new_state\<lparr>main := push (Num (js_add num_a (Fin 1))) m1\<rparr>)))))"

definition OP_1SUB :: "builtins \<Rightarrow> State \<Rightarrow> StateError + State" where
  "OP_1SUB J state =
     (let new_state = deepCopy state in
        try_catch state
          (bnd (pop (main new_state)) (\<lambda>(a, m1).
           bnd (to_number J a) (\<lambda>num_a.
           return_state (new_state\<lparr>main := push (Num (js_sub num_a (Fin 1))) m1\<rparr>)))))"

definition OP_2DROP :: "State \<Rightarrow> StateError + State" where
  "OP_2DROP state =
     (if stack_size (main state) < 2 then error (Msg ''Need two items for 2DROP'') state
      else let new_state = deepCopy state in
        try_catch state
          (bnd (pop (main new_state)) (\<lambda>(a, m1).
           bnd (pop m1) (\<lambda>(b, m2).
           return_state (new_state\<lparr>main := m2\<rparr>)))))"

definition OP_2DUP :: "State \<Rightarrow> StateError + State" where
  "OP_2DUP state =
     (if stack_size (main state) < 2 then error (Msg ''requires two items for 2DUP'') state
      else let new_state = deepCopy state in
        try_catch state
          (bnd (peek (main new_state)) (\<lambda>a.
           bnd (peekNth (Fin 1) (main new_state)) (\<lambda>b.
           return_state (new_state\<lparr>main := push a (push b (main new_state))\<rparr>)))))"

definition OP_2OVER :: "State \<Rightarrow> StateError + State" where
  "OP_2OVER state =
     (if stack_size (main state) < 4 then error (Msg ''requires four items for 2OVER'') state
      else let new_state = deepCopy state in
        try_catch state
          (bnd (peekNth (Fin 2) (main new_state)) (\<lambda>third.
           bnd (peekNth (Fin 3) (main new_state)) (\<lambda>fourth.
           return_state (new_state\<lparr>main := push third (push fourth (main new_state))\<rparr>)))))"

definition OP_2ROT :: "State \<Rightarrow> StateError + State" where
  "OP_2ROT state =
     (if stack_size (main state) < 6 then error (Msg ''Need six items for 2ROT'') state
      else let new_state = deepCopy state in
        try_catch state
          (bnd (pop (main new_state)) (\<lambda>(a, m1).
           bnd (pop m1) (\<lambda>(b, m2).
           bnd (pop m2) (\<lambda>(c, m3).
           bnd (pop m3) (\<lambda>(d, m4).
           bnd (pop m4) (\<lambda>(e, m5).
           bnd (pop m5) (\<lambda>(f, m6).
           return_state (new_state\<lparr>main := push e (push f (push a (push b (push c (push d m6)))))\<rparr>)))))))))"

definition OP_2SWAP :: "State \<Rightarrow> StateError + State" where
  "OP_2SWAP state =
     (if stack_size (main state) < 4 then error (Msg ''Need four items for 2SWAP'') state
      else let new_state = deepCopy state in
        try_catch state
          (bnd (pop (main new_state)) (\<lambda>(a, m1).
           bnd (pop m1) (\<lambda>(b, m2).
           bnd (pop m2) (\<lambda>(c, m3).
           bnd (pop m3) (\<lambda>(d, m4).
           return_state (new_state\<lparr>main := push c (push d (push a (push b m4)))\<rparr>)))))))"

definition OP_3DUP :: "State \<Rightarrow> StateError + State" where
  "OP_3DUP state =
     (if stack_size (main state) < 3 then error (Msg ''Need three items for 3DUP'') state
      else let new_state = deepCopy state in
        try_catch state
          (bnd (peek (main new_state)) (\<lambda>a.
           bnd (peekNth (Fin 1) (main new_state)) (\<lambda>b.
           bnd (peekNth (Fin 2) (main new_state)) (\<lambda>c.
           return_state (new_state\<lparr>main := push a (push b (push c (main new_state)))\<rparr>))))))"

definition OP_ABS :: "builtins \<Rightarrow> State \<Rightarrow> StateError + State" where
  "OP_ABS J state =
     (if stack_size (main state) < 1 then error (Msg ''Need one item for ABS'') state
      else let new_state = deepCopy state in
        try_catch state
          (bnd (pop (main new_state)) (\<lambda>(val, m1).
           bnd (to_number J val) (\<lambda>num_val.
           return_state (new_state\<lparr>main := push (Num (js_abs num_val)) m1\<rparr>)))))"

definition OP_ADD :: "builtins \<Rightarrow> State \<Rightarrow> StateError + State" where
  "OP_ADD J state =
     (if stack_size (main state) < 2 then error (Msg ''Need two items for ADD'') state
      else let new_state = deepCopy state in
        try_catch state
          (bnd (pop (main new_state)) (\<lambda>(a, m1).
           bnd (pop m1) (\<lambda>(b, m2).
           bnd (to_number J a) (\<lambda>num_a.
           bnd (to_number J b) (\<lambda>num_b.
           return_state (new_state\<lparr>main := push (Num (js_add num_b num_a)) m2\<rparr>)))))))"

definition OP_BOOLAND :: "builtins \<Rightarrow> State \<Rightarrow> StateError + State" where
  "OP_BOOLAND J state =
     (if stack_size (main state) < 2 then error (Msg ''Need two items for BOOLAND'') state
      else let new_state = deepCopy state in
        try_catch state
          (bnd (pop (main new_state)) (\<lambda>(a, m1).
           bnd (pop m1) (\<lambda>(b, m2).
           bnd (to_number J a) (\<lambda>num_a.
           bnd (to_number J b) (\<lambda>num_b.
           return_state (new_state\<lparr>main := push (Num (bool_num (js_neq num_a (Fin 0) \<and> js_neq num_b (Fin 0)))) m2\<rparr>)))))))"

definition OP_BOOLOR :: "builtins \<Rightarrow> State \<Rightarrow> StateError + State" where
  "OP_BOOLOR J state =
     (if stack_size (main state) < 2 then error (Msg ''Need two items for BOOLOR'') state
      else let new_state = deepCopy state in
        try_catch state
          (bnd (pop (main new_state)) (\<lambda>(a, m1).
           bnd (pop m1) (\<lambda>(b, m2).
           bnd (to_number J a) (\<lambda>num_a.
           bnd (to_number J b) (\<lambda>num_b.
           return_state (new_state\<lparr>main := push (Num (bool_num (js_neq num_a (Fin 0) \<or> js_neq num_b (Fin 0)))) m2\<rparr>)))))))"

definition OP_CAT :: "builtins \<Rightarrow> State \<Rightarrow> StateError + State" where
  "OP_CAT J state =
     (if stack_size (main state) < 2 then error (Msg ''Need two items for CAT'') state
      else let new_state = deepCopy state in
        try_catch state
          (bnd (pop (main new_state)) (\<lambda>(a, m1).
           bnd (pop m1) (\<lambda>(b, m2).
           return_state (new_state\<lparr>main := push (Str (String J a @ ''||'' @ String J b)) m2\<rparr>)))))"

definition OP_CHECKMULTISIG :: "builtins \<Rightarrow> State \<Rightarrow> StateError + State" where
  "OP_CHECKMULTISIG J state =
     (if stack_size (main state) < 1 then error (Msg ''Need number of pubkeys for CHECKMULTISIG'') state
      else let new_state = deepCopy state in
        try_catch state
          (bnd (pop (main new_state)) (\<lambda>(n_pubkeys, m1).
           bnd (to_number J n_pubkeys) (\<lambda>num_pubkeys.
           if js_lt (size_num m1) num_pubkeys
           then return_error (Msg ''Stack underflow: not enough pubkeys'') state
           else
           bnd (pop_loop 0 num_pubkeys m1) (\<lambda>m2.
           if stack_size m2 < 1 then return_error (Msg ''Need number of signatures'') state
           else
           bnd (pop m2) (\<lambda>(n_sigs, m3).
           bnd (to_number J n_sigs) (\<lambda>num_sigs.
           if js_lt (size_num m3) num_sigs
           then return_error (Msg ''Stack underflow: not enough signatures'') state
           else
           bnd (pop_loop 0 num_sigs m3) (\<lambda>m4.
           if stack_size m4 < 1 then return_error (Msg ''Need dummy element'') state
           else
           bnd (pop m4) (\<lambda>(dummy, m5).
           return_state (new_state\<lparr>main := push (Num (Fin 1)) m5\<rparr>))))))))))"

definition OP_CHECKMULTISIGVERIFY :: "builtins \<Rightarrow> State \<Rightarrow> StateError + State" where
  "OP_CHECKMULTISIGVERIFY J state =
     (if stack_size (main state) < 1 then error (Msg ''Need number of pubkeys for CHECKMULTISIGVERIFY'') state
      else let new_state = deepCopy state in
        try_catch state
          (bnd (pop (main new_state)) (\<lambda>(n_pubkeys, m1).
           bnd (to_number J n_pubkeys) (\<lambda>num_pubkeys.
           if js_lt (size_num m1) num_pubkeys
           then return_error (Msg ''Stack underflow: not enough pubkeys'') state
           else
           bnd (pop_loop 0 num_pubkeys m1) (\<lambda>m2.
           if stack_size m2 < 1 then return_error (Msg ''Need number of signatures'') state
           else
           bnd (pop m2) (\<lambda>(n_sigs, m3).
           bnd (to_number J n_sigs) (\<lambda>num_sigs.
           if js_lt (size_num m3) num_sigs
           then return_error (Msg ''Stack underflow: not enough signatures'') state
           else
           bnd (pop_loop 0 num_sigs m3) (\<lambda>m4.
           if stack_size m4 < 1 then return_error (Msg ''Need dummy element'') state
           else
           bnd (pop m4) (\<lambda>(dummy, m5).
           bnd (pop (push (Num (Fin 1)) m5)) (\<lambda>(val, m6).
           bnd (to_number J val) (\<lambda>num_val.
           if js_eq num_val (Fin 0) then return_error (Msg ''Verification failed'') state
           else return_state (new_state\<lparr>main := m6\<rparr>))))))))))))"

definition OP_CHECKSIG :: "State \<Rightarrow> StateError + State" where
  "OP_CHECKSIG state =
     (if stack_size (main state) < 2 then error (Msg ''Need pubkey and signature for CHECKSIG'') state
      else let new_state = deepCopy state in
        try_catch state
          (bnd (pop (main new_state)) (\<lambda>(pubkey, m1).
           bnd (pop m1) (\<lambda>(signature, m2).
           return_state (new_state\<lparr>main := push (Num (Fin 1)) m2\<rparr>)))))"

definition OP_CHECKSIGADD :: "builtins \<Rightarrow> State \<Rightarrow> StateError + State" where
  "OP_CHECKSIGADD J state =
     (if stack_size (main state) < 3 then error (Msg ''Need number, pubkey, and signature for CHECKSIGADD'') state
      else let new_state = deepCopy state in
        try_catch state
          (bnd (pop (main new_state)) (\<lambda>(pubkey, m1).
           bnd (pop m1) (\<lambda>(signature, m2).
           bnd (pop m2) (\<lambda>(n, m3).
           bnd (to_number J n) (\<lambda>num_n.
           return_state (new_state\<lparr>main := push (Num (js_add num_n (Fin 1))) m3\<rparr>)))))))"

definition OP_CHECKSIGVERIFY :: "builtins \<Rightarrow> State \<Rightarrow> StateError + State" where
  "OP_CHECKSIGVERIFY J state =
     (if stack_size (main state) < 2
      then error (Msg ''Need pubkey and signature for CHECKSIGVERIFY'') state
      else let new_state = deepCopy state in
        try_catch state
          (bnd (pop (main new_state)) (\<lambda>(pubkey, m1).
           bnd (pop m1) (\<lambda>(signature, m2).
           bnd (pop (push (Num (Fin 1)) m2)) (\<lambda>(val, m3).
           bnd (to_number J val) (\<lambda>num_val.
           if js_eq num_val (Fin 0) then return_error (Msg ''Verification failed'') state
           else return_state (new_state\<lparr>main := m3\<rparr>)))))))"

definition OP_DEPTH :: "State \<Rightarrow> StateError + State" where
  "OP_DEPTH state =
     (let new_state = deepCopy state
      in Inr (new_state\<lparr>main := push (Num (size_num (main new_state))) (main new_state)\<rparr>))"

definition OP_DROP :: "State \<Rightarrow> StateError + State" where
  "OP_DROP state =
     (if stack_size (main state) < 1 then error (Msg ''Need one item for DROP'') state
      else let new_state = deepCopy state in
        try_catch state
          (bnd (pop (main new_state)) (\<lambda>(dropped, m1).
           return_state (new_state\<lparr>main := m1\<rparr>))))"

definition OP_DUP :: "State \<Rightarrow> StateError + State" where
  "OP_DUP state =
     (if stack_size (main state) = 0 then error (Msg ''Stack underflow'') state
      else let new_state = deepCopy state in
        try_catch state
          (bnd (peek (main new_state)) (\<lambda>val.
           return_state (new_state\<lparr>main := push val (main new_state)\<rparr>))))"

definition OP_ELSE :: "State \<Rightarrow> StateError + State" where
  "OP_ELSE state =
     (case if_result state of
        None \<Rightarrow> error (Msg ''ELSE without matching IF'') state
      | Some flag \<Rightarrow>
          let new_state = deepCopy state
          in Inr (new_state\<lparr>if_result := Some (\<not> flag)\<rparr>))"

definition OP_ENDIF :: "State \<Rightarrow> StateError + State" where
  "OP_ENDIF state =
     (let new_state = deepCopy state
      in Inr (new_state\<lparr>if_result := None\<rparr>))"

definition OP_EQUAL :: "State \<Rightarrow> StateError + State" where
  "OP_EQUAL state =
     (if stack_size (main state) < 2 then error (Msg ''Need two items for EQUAL'') state
      else let new_state = deepCopy state in
        try_catch state
          (bnd (pop (main new_state)) (\<lambda>(a, m1).
           bnd (pop m1) (\<lambda>(b, m2).
           return_state (new_state\<lparr>main := push (Num (bool_num (strict_equal a b))) m2\<rparr>)))))"

definition OP_EQUALVERIFY :: "builtins \<Rightarrow> State \<Rightarrow> StateError + State" where
  "OP_EQUALVERIFY J state =
     (if stack_size (main state) < 2 then error (Msg ''Need two items for EQUALVERIFY'') state
      else let new_state = deepCopy state in
        try_catch state
          (bnd (pop (main new_state)) (\<lambda>(a, m1).
           bnd (pop m1) (\<lambda>(b, m2).
           bnd (pop (push (Num (bool_num (strict_equal a b))) m2)) (\<lambda>(val, m3).
           bnd (to_number J val) (\<lambda>num_val.
           if js_eq num_val (Fin 0) then return_error (Msg ''Verification failed'') state
           else return_state (new_state\<lparr>main := m3\<rparr>)))))))"

definition OP_FROMALTSTACK :: "State \<Rightarrow> StateError + State" where
  "OP_FROMALTSTACK state =
     (if stack_size (alt state) = 0 then error (Msg ''Alt stack underflow'') state
      else let new_state = deepCopy state in
        try_catch state
          (bnd (pop (alt new_state)) (\<lambda>(val, a1).
           return_state (new_state\<lparr>main := push val (main new_state), alt := a1\<rparr>))))"

definition OP_GREATERTHAN :: "builtins \<Rightarrow> State \<Rightarrow> StateError + State" where
  "OP_GREATERTHAN J state =
     (if stack_size (main state) < 2 then error (Msg ''Need two items for GREATERTHAN'') state
      else let new_state = deepCopy state in
        try_catch state
          (bnd (pop (main new_state)) (\<lambda>(a, m1).
           bnd (pop m1) (\<lambda>(b, m2).
           bnd (to_number J a) (\<lambda>num_a.
           bnd (to_number J b) (\<lambda>num_b.
           return_state (new_state\<lparr>main := push (Num (bool_num (js_gt num_b num_a))) m2\<rparr>)))))))"

definition OP_GREATERTHANOREQUAL :: "builtins \<Rightarrow> State \<Rightarrow> StateError + State" where
  "OP_GREATERTHANOREQUAL J state =
     (if stack_size (main state) < 2 then error (Msg ''Need two items for GREATERTHANOREQUAL'') state
      else let new_state = deepCopy state in
        try_catch state
          (bnd (pop (main new_state)) (\<lambda>(a, m1).
           bnd (pop m1) (\<lambda>(b, m2).
           bnd (to_number J a) (\<lambda>num_a.
           bnd (to_number J b) (\<lambda>num_b.
           return_state (new_state\<lparr>main := push (Num (bool_num (js_ge num_b num_a))) m2\<rparr>)))))))"

definition OP_HASH :: "builtins \<Rightarrow> State \<Rightarrow> StateError + State" where
  "OP_HASH J state =
     (if stack_size (main state) < 1 then error (Msg ''Stack underflow'') state
      else let new_state = deepCopy state in
        try_catch state
          (bnd (pop (main new_state)) (\<lambda>(val, m1).
           return_state (new_state\<lparr>main := push (Str (''Hash('' @ String J val @ '')'')) m1\<rparr>))))"

definition OP_IF :: "builtins \<Rightarrow> State \<Rightarrow> StateError + State" where
  "OP_IF J state =
     (if stack_size (main state) < 1 then error (Msg ''Need one item for IF'') state
      else let new_state = deepCopy state in
        try_catch state
          (bnd (pop (main new_state)) (\<lambda>(condition, m1).
           bnd (to_number J condition) (\<lambda>num_condition.
           return_state (new_state\<lparr>main := m1, if_result := Some (js_neq num_condition (Fin 0))\<rparr>)))))"

definition OP_IFDUP :: "builtins \<Rightarrow> State \<Rightarrow> StateError + State" where
  "OP_IFDUP J state =
     (if stack_size (main state) = 0 then error (Msg ''Need one item for IFDUP'') state
      else let new_state = deepCopy state in
        try_catch state
          (bnd (peek (main new_state)) (\<lambda>val.
           bnd (to_number J val) (\<lambda>num_condition.
           if js_neq num_condition (Fin 0)
           then return_state (new_state\<lparr>main := push val (main new_state)\<rparr>)
           else return_state new_state))))"

definition OP_LESSTHAN :: "builtins \<Rightarrow> State \<Rightarrow> StateError + State" where
  "OP_LESSTHAN J state =
     (if stack_size (main state) < 2 then error (Msg ''Need two items for LESSTHAN'') state
      else let new_state = deepCopy state in
        try_catch state
          (bnd (pop (main new_state)) (\<lambda>(a, m1).
           bnd (pop m1) (\<lambda>(b, m2).
           bnd (to_number J a) (\<lambda>num_a.
           bnd (to_number J b) (\<lambda>num_b.
           return_state (new_state\<lparr>main := push (Num (bool_num (js_lt num_b num_a))) m2\<rparr>)))))))"

definition OP_LESSTHANOREQUAL :: "builtins \<Rightarrow> State \<Rightarrow> StateError + State" where
  "OP_LESSTHANOREQUAL J state =
     (if stack_size (main state) < 2 then error (Msg ''Need two items for LESSTHANOREQUAL'') state
      else let new_state = deepCopy state in
        try_catch state
          (bnd (pop (main new_state)) (\<lambda>(a, m1).
           bnd (pop m1) (\<lambda>(b, m2).
           bnd (to_number J a) (\<lambda>num_a.
           bnd (to_number J b) (\<lambda>num_b.
           return_state (new_state\<lparr>main := push (Num (bool_num (js_le num_b num_a))) m2\<rparr>)))))))"

definition OP_MAX :: "builtins \<Rightarrow> State \<Rightarrow> StateError + State" where
  "OP_MAX J state =
     (if stack_size (main state) < 2 then error (Msg ''Need two items for MAX'') state
      else let new_state = deepCopy state in
        try_catch state
          (bnd (pop (main new_state)) (\<lambda>(a, m1).
           bnd (pop m1) (\<lambda>(b, m2).
           bnd (to_number J a) (\<lambda>num_a.
           bnd (to_number J b) (\<lambda>num_b.
           return_state (new_state\<lparr>main := push (Num (Math_max num_a num_b)) m2\<rparr>)))))))"

definition OP_MIN :: "builtins \<Rightarrow> State \<Rightarrow> StateError + State" where
  "OP_MIN J state =
     (if stack_size (main state) < 2 then error (Msg ''Need two items for MIN'') state
      else let new_state = deepCopy state in
        try_catch state
          (bnd (pop (main new_state)) (\<lambda>(a, m1).
           bnd (pop m1) (\<lambda>(b, m2).
           bnd (to_number J a) (\<lambda>num_a.
           bnd (to_number J b) (\<lambda>num_b.
           return_state (new_state\<lparr>main := push (Num (Math_min num_a num_b)) m2\<rparr>)))))))"

definition OP_NEGATE :: "builtins \<Rightarrow> State \<Rightarrow> StateError + State" where
  "OP_NEGATE J state =
     (if stack_size (main state) < 1 then error (Msg ''Need one item for NEGATE'') state
      else let new_state = deepCopy state in
        try_catch state
          (bnd (pop (main new_state)) (\<lambda>(val, m1).
           bnd (to_number J val) (\<lambda>num_val.
           return_state (new_state\<lparr>main := push (Num (js_neg num_val)) m1\<rparr>)))))"

definition OP_NIP :: "State \<Rightarrow> StateError + State" where
  "OP_NIP state =
     (if stack_size (main state) < 2 then error (Msg ''Need two items for NIP'') state
      else let new_state = deepCopy state in
        try_catch state
          (bnd (pop (main new_state)) (\<lambda>(top, m1).
           bnd (pop m1) (\<lambda>(second, m2).
           return_state (new_state\<lparr>main := push top m2\<rparr>)))))"

definition OP_NOP :: "State \<Rightarrow> StateError + State" where
  "OP_NOP state = Inr state"

definition OP_NOT :: "builtins \<Rightarrow> State \<Rightarrow> StateError + State" where
  "OP_NOT J state =
     (if stack_size (main state) < 1 then error (Msg ''Need one item for NOT'') state
      else let new_state = deepCopy state in
        try_catch state
          (bnd (pop (main new_state)) (\<lambda>(val, m1).
           bnd (to_number J val) (\<lambda>num_val.
           return_state (new_state\<lparr>main := push (Num (bool_num (js_eq num_val (Fin 0)))) m1\<rparr>)))))"

definition OP_NOTIF :: "builtins \<Rightarrow> State \<Rightarrow> StateError + State" where
  "OP_NOTIF J state =
     try_catch state
       (if stack_size (main state) < 1 then return_error (Msg ''Need one item for NOTIF'') state
        else let new_state = deepCopy state in
          bnd (pop (main new_state)) (\<lambda>(condition, m1).
          bnd (to_number J condition) (\<lambda>num_condition.
          return_state (new_state\<lparr>main := m1, if_result := Some (js_eq num_condition (Fin 0))\<rparr>))))"

definition OP_NUMEQUAL :: "builtins \<Rightarrow> State \<Rightarrow> StateError + State" where
  "OP_NUMEQUAL J state =
     (if stack_size (main state) < 2 then error (Msg ''Need two items for NUMEQUAL'') state
      else let new_state = deepCopy state in
        try_catch state
          (bnd (pop (main new_state)) (\<lambda>(a, m1).
           bnd (pop m1) (\<lambda>(b, m2).
           bnd (to_number J a) (\<lambda>num_a.
           bnd (to_number J b) (\<lambda>num_b.
           return_state (new_state\<lparr>main := push (Num (bool_num (js_eq num_b num_a))) m2\<rparr>)))))))"

definition OP_NUMEQUALVERIFY :: "builtins \<Rightarrow> State \<Rightarrow> StateError + State" where
  "OP_NUMEQUALVERIFY J state =
     (if stack_size (main state) < 2 then error (Msg ''Need two items for NUMEQUALVERIFY'') state
      else let new_state = deepCopy state in
        try_catch state
          (bnd (pop (main new_state)) (\<lambda>(a, m1).
           bnd (pop m1) (\<lambda>(b, m2).
           bnd (to_number J a) (\<lambda>num_a.
           bnd (to_number J b) (\<lambda>num_b.
           bnd (pop (push (Num (bool_num (js_eq num_b num_a))) m2)) (\<lambda>(val, m3).
           bnd (to_number J val) (\<lambda>num_val.
           if js_eq num_val (Fin 0) then return_error (Msg ''Verification failed'') state
           else return_state (new_state\<lparr>main := m3\<rparr>)))))))))"

definition OP_NUMNOTEQUAL :: "builtins \<Rightarrow> State \<Rightarrow> StateError + State" where
  "OP_NUMNOTEQUAL J state =
     (if stack_size (main state) < 2 then error (Msg ''Need two items for NUMNOTEQUAL'') state
      else let new_state = deepCopy state in
        try_catch state
          (bnd (pop (main new_state)) (\<lambda>(a, m1).
           bnd (pop m1) (\<lambda>(b, m2).
           bnd (to_number J a) (\<lambda>num_a.
           bnd (to_number J b) (\<lambda>num_b.
           return_state (new_state\<lparr>main := push (Num (bool_num (js_neq num_b num_a))) m2\<rparr>)))))))"

definition OP_OVER :: "State \<Rightarrow> StateError + State" where
  "OP_OVER state =
     (if stack_size (main state) < 2 then error (Msg ''Need two items for OVER'') state
      else let new_state = deepCopy state in
        try_catch state
          (bnd (peekNth (Fin 1) (main new_state)) (\<lambda>second.
           return_state (new_state\<lparr>main := push second (main new_state)\<rparr>))))"

definition OP_PICK :: "builtins \<Rightarrow> State \<Rightarrow> StateError + State" where
  "OP_PICK J state =
     (if stack_size (main state) < 1 then error (Msg ''Need index for PICK'') state
      else let new_state = deepCopy state in
        try_catch state
          (bnd (pop (main new_state)) (\<lambda>(n, m1).
           bnd (to_number J n) (\<lambda>num_n.
           if js_lt (size_num m1) (js_add num_n (Fin 1))
           then return_error (Msg ''Stack too small for PICK'') state
           else
           bnd (peekNth num_n m1) (\<lambda>item.
           return_state (new_state\<lparr>main := push item m1\<rparr>))))))"

definition OP_ROLL :: "builtins \<Rightarrow> State \<Rightarrow> StateError + State" where
  "OP_ROLL J state =
     (if stack_size (main state) < 1 then error (Msg ''Need index for ROLL'') state
      else let new_state = deepCopy state in
        try_catch state
          (bnd (pop (main new_state)) (\<lambda>(n, m1).
           bnd (to_number J n) (\<lambda>num_n.
           if js_lt (size_num m1) (js_add num_n (Fin 1))
           then return_error (Msg ''Stack too small for ROLL'') state
           else
           bnd (roll_pop 0 num_n m1 []) (\<lambda>(temp_stack, m2).
           bnd (pop m2) (\<lambda>(element_to_top, m3).
           return_state
             (new_state\<lparr>main := push element_to_top (roll_push_all num_n temp_stack m3)\<rparr>)))))))"

definition OP_ROT :: "State \<Rightarrow> StateError + State" where
  "OP_ROT state =
     (if stack_size (main state) < 3 then error (Msg ''Need three items for ROT'') state
      else let new_state = deepCopy state in
        try_catch state
          (bnd (pop (main new_state)) (\<lambda>(a, m1).
           bnd (pop m1) (\<lambda>(b, m2).
           bnd (pop m2) (\<lambda>(c, m3).
           return_state (new_state\<lparr>main := push c (push a (push b m3))\<rparr>))))))"

definition OP_SIZE :: "builtins \<Rightarrow> State \<Rightarrow> StateError + State" where
  "OP_SIZE J state =
     (if stack_size (main state) < 1 then error (Msg ''Need one item for SIZE'') state
      else let new_state = deepCopy state in
        try_catch state
          (bnd (peek (main new_state)) (\<lambda>top.
           let val = String J top
           in return_state
                (new_state\<lparr>main := push (Num (Fin (of_nat (length val)))) (main new_state)\<rparr>))))"

definition OP_SUB :: "builtins \<Rightarrow> State \<Rightarrow> StateError + State" where
  "OP_SUB J state =
     (if stack_size (main state) < 2 then error (Msg ''Need two items for SUB'') state
      else let new_state = deepCopy state in
        try_catch state
          (bnd (pop (main new_state)) (\<lambda>(a, m1).
           bnd (pop m1) (\<lambda>(b, m2).
           bnd (to_number J a) (\<lambda>num_a.
           bnd (to_number J b) (\<lambda>num_b.
           return_state (new_state\<lparr>main := push (Num (js_sub num_b num_a)) m2\<rparr>)))))))"

definition OP_SWAP :: "State \<Rightarrow> StateError + State" where
  "OP_SWAP state =
     (if stack_size (main state) < 2 then error (Msg ''Need two items for SWAP'') state
      else let new_state = deepCopy state in
        try_catch state
          (bnd (pop (main new_state)) (\<lambda>(a, m1).
           bnd (pop m1) (\<lambda>(b, m2).
           return_state (new_state\<lparr>main := push b (push a m2)\<rparr>)))))"

definition OP_TOALTSTACK :: "State \<Rightarrow> StateError + State" where
  "OP_TOALTSTACK state =
     (if stack_size (main state) = 0 then error (Msg ''Stack underflow'') state
      else let new_state = deepCopy state in
        try_catch state
          (bnd (pop (main new_state)) (\<lambda>(val, m1).
           return_state (new_state\<lparr>main := m1, alt := push val (alt new_state)\<rparr>))))"

definition OP_TUCK :: "State \<Rightarrow> StateError + State" where
  "OP_TUCK state =
     (if stack_size (main state) < 2 then error (Msg ''Need two items for TUCK'') state
      else let new_state = deepCopy state in
        try_catch state
          (bnd (pop (main new_state)) (\<lambda>(a, m1).
           bnd (pop m1) (\<lambda>(b, m2).
           return_state (new_state\<lparr>main := push a (push b (push a m2))\<rparr>)))))"

definition OP_VERIFY :: "builtins \<Rightarrow> State \<Rightarrow> StateError + State" where
  "OP_VERIFY J state =
     (if stack_size (main state) < 1 then error (Msg ''Need one item for VERIFY'') state
      else
        try_catch state
          (let new_state = deepCopy state in
           bnd (pop (main new_state)) (\<lambda>(val, m1).
           bnd (to_number J val) (\<lambda>num_val.
           if js_eq num_val (Fin 0) then return_error (Msg ''Verification failed'') state
           else return_state (new_state\<lparr>main := m1\<rparr>)))))"

definition OP_WITHIN :: "builtins \<Rightarrow> State \<Rightarrow> StateError + State" where
  "OP_WITHIN J state =
     (if stack_size (main state) < 3 then error (Msg ''Need three items for WITHIN'') state
      else let new_state = deepCopy state in
        try_catch state
          (bnd (pop (main new_state)) (\<lambda>(max, m1).
           bnd (pop m1) (\<lambda>(min, m2).
           bnd (pop m2) (\<lambda>(x, m3).
           bnd (to_number J max) (\<lambda>num_max.
           bnd (to_number J min) (\<lambda>num_min.
           bnd (to_number J x) (\<lambda>num_x.
           return_state (new_state\<lparr>main := push (Num (bool_num (js_ge num_x num_min \<and> js_lt num_x num_max))) m3\<rparr>)))))))))"

text \<open>The dictionary \<open>opcodeList\<close>; a lookup is \<open>map_of (opcodeList J) name\<close>.\<close>

definition opcodeList :: "builtins \<Rightarrow> (string \<times> (State \<Rightarrow> StateError + State)) list" where
  "opcodeList J =
    [(''OP_0NOTEQUAL'', OP_0NOTEQUAL J),
     (''OP_1ADD'', OP_1ADD J),
     (''OP_1SUB'', OP_1SUB J),
     (''OP_2DROP'', OP_2DROP),
     (''OP_2DUP'', OP_2DUP),
     (''OP_2OVER'', OP_2OVER),
     (''OP_2ROT'', OP_2ROT),
     (''OP_2SWAP'', OP_2SWAP),
     (''OP_3DUP'', OP_3DUP),
     (''OP_ABS'', OP_ABS J),
     (''OP_ADD'', OP_ADD J),
     (''OP_BOOLAND'', OP_BOOLAND J),
     (''OP_BOOLOR'', OP_BOOLOR J),
     (''OP_CAT'', OP_CAT J),
     (''OP_CHECKMULTISIG'', OP_CHECKMULTISIG J),
     (''OP_CHECKMULTISIGVERIFY'', OP_CHECKMULTISIGVERIFY J),
     (''OP_CHECKSIG'', OP_CHECKSIG),
     (''OP_CHECKSIGADD'', OP_CHECKSIGADD J),
     (''OP_CHECKSIGVERIFY'', OP_CHECKSIGVERIFY J),
     (''OP_DEPTH'', OP_DEPTH),
     (''OP_DROP'', OP_DROP),
     (''OP_DUP'', OP_DUP),
     (''OP_ELSE'', OP_ELSE),
     (''OP_ENDIF'', OP_ENDIF),
     (''OP_EQUAL'', OP_EQUAL),
     (''OP_EQUALVERIFY'', OP_EQUALVERIFY J),
     (''OP_FROMALTSTACK'', OP_FROMALTSTACK),
     (''OP_GREATERTHAN'', OP_GREATERTHAN J),
     (''OP_GREATERTHANOREQUAL'', OP_GREATERTHANOREQUAL J),
     (''OP_HASH'', OP_HASH J),
     (''OP_IF'', OP_IF J),
     (''OP_IFDUP'', OP_IFDUP J),
     (''OP_LESSTHAN'', OP_LESSTHAN J),
     (''OP_LESSTHANOREQUAL'', OP_LESSTHANOREQUAL J),
     (''OP_MAX'', OP_MAX J),
     (''OP_MIN'', OP_MIN J),
     (''OP_NEGATE'', OP_NEGATE J),
     (''OP_NIP'', OP_NIP),
     (''OP_NOP'', OP_NOP),
     (''OP_NOT'', OP_NOT J),
     (''OP_NOTIF'', OP_NOTIF J),
     (''OP_NUMEQUAL'', OP_NUMEQUAL J),
     (''OP_NUMEQUALVERIFY'', OP_NUMEQUALVERIFY J),
     (''OP_NUMNOTEQUAL'', OP_NUMNOTEQUAL J),
     (''OP_OVER'', OP_OVER),
     (''OP_PICK'', OP_PICK J),
     (''OP_ROLL'', OP_ROLL J),
     (''OP_ROT'', OP_ROT),
     (''OP_SIZE'', OP_SIZE J),
     (''OP_SUB'', OP_SUB J),
     (''OP_SWAP'', OP_SWAP),
     (''OP_TOALTSTACK'', OP_TOALTSTACK),
     (''OP_TUCK'', OP_TUCK),
     (''OP_VERIFY'', OP_VERIFY J),
     (''OP_WITHIN'', OP_WITHIN J)]"


text \<open>
  \<open>customOpcodeList\<close>: the opcodes that carry an immediate. This table has the single
  entry \<open>OP_NUMBER\<close>.
\<close>

definition OP_NUMBER :: "jsnum \<Rightarrow> State \<Rightarrow> State" where
  "OP_NUMBER num state =
     (let new_state = deepCopy state
      in new_state\<lparr>main := push (Num num) (main new_state)\<rparr>)"

definition customOpcodeList :: "(string \<times> (jsnum \<Rightarrow> State \<Rightarrow> State)) list" where
  "customOpcodeList = [(''OP_NUMBER'', OP_NUMBER)]"

section \<open>The opcode normalizer (converter.js)\<close>

text \<open>
  \<open>convertOpcode\<close> maps a raw token to an object \<open>{op, val}\<close>, where \<open>val\<close> may be absent.
  The driver passes it the text matched by its own pattern
  \<open>OP_\w+ | \b0[oO][0-7]+\b | \b0[xX][0-9a-fA-F]+\b | \b\d+\b\<close>, a word of letters, digits
  and underscores.
\<close>

record convertedOp =
  op :: string
  val :: "jsnum option"

text \<open>\<open>String.prototype.trim\<close>, on the white space of ASCII.\<close>

definition is_white_space :: "char \<Rightarrow> bool" where
  "is_white_space c = (c \<in> set [CHR '' '', CHR 0x09, CHR 0x0A, CHR 0x0B, CHR 0x0C, CHR 0x0D])"

definition trim :: "string \<Rightarrow> string" where
  "trim s = rev (dropWhile is_white_space (rev (dropWhile is_white_space s)))"

definition convertNop :: "string \<Rightarrow> string" where
  "convertNop opcode =
     (if trim opcode \<in> set [''OP_CHECKLOCKTIMEVERIFY'', ''OP_CHECKSEQUENCEVERIFY'',
          ''OP_PUSHDATA1'', ''OP_PUSHDATA2'', ''OP_PUSHDATA4'', ''OP_CODESEPARATOR'']
      then ''OP_NOP'' else opcode)"

definition convertHash :: "string \<Rightarrow> string" where
  "convertHash opcode =
     (if trim opcode \<in> set [''OP_RIPEMD160'', ''OP_SHA1'', ''OP_SHA256'', ''OP_HASH160'',
          ''OP_HASH256'']
      then ''OP_HASH'' else opcode)"

subsection \<open>The patterns of \<open>convertNumbers\<close>\<close>

definition is_digit :: "char \<Rightarrow> bool" where
  "is_digit c = (c \<in> set ''0123456789'')"

definition is_octal :: "char \<Rightarrow> bool" where
  "is_octal c = (c \<in> set ''01234567'')"

definition is_hex :: "char \<Rightarrow> bool" where
  "is_hex c = (c \<in> set ''0123456789abcdefABCDEF'')"

text \<open>The class \<open>\w\<close>.\<close>

definition word_char :: "char \<Rightarrow> bool" where
  "word_char c =
     (c \<in> set ''abcdefghijklmnopqrstuvwxyzABCDEFGHIJKLMNOPQRSTUVWXYZ0123456789_'')"

text \<open>\<open>opcode.match(/OP_\w+/)\<close>: the pattern is searched for anywhere in the string.\<close>

fun has_OP_word :: "string \<Rightarrow> bool" where
  "has_OP_word (a # b # c # d # rest) =
     ((a = CHR ''O'' \<and> b = CHR ''P'' \<and> c = CHR ''_'' \<and> word_char d)
      \<or> has_OP_word (b # c # d # rest))"
| "has_OP_word _ = False"

text \<open>
  \<open>opcode.match(/(0[oO][0-7]+\b|\b0[xX][0-9a-fA-F]+\b|\b\d+\b)(?=,)?/)\<close>, searched for
  anywhere in the string; the optional lookahead never makes the match fail.
  \<open>run_then_boundary cls s\<close> matches \<open>cls+\b\<close> at the start of \<open>s\<close>: the run of \<open>cls\<close> is
  taken whole, since a shorter run is followed by a character of \<open>cls\<close>, a word character,
  where \<open>\b\<close> fails. \<open>literal_at lb s\<close> matches the pattern at the start of \<open>s\<close>, where
  \<open>lb\<close> tells whether a word boundary stands before \<open>s\<close> when \<open>s\<close> starts with a digit.
\<close>

definition run_then_boundary :: "(char \<Rightarrow> bool) \<Rightarrow> string \<Rightarrow> bool" where
  "run_then_boundary cls s =
     (takeWhile cls s \<noteq> [] \<and>
      (case dropWhile cls s of [] \<Rightarrow> True | c # rest \<Rightarrow> \<not> word_char c))"

definition literal_at :: "bool \<Rightarrow> string \<Rightarrow> bool" where
  "literal_at lb s =
     ((case s of
         z # p # rest \<Rightarrow>
           z = CHR ''0'' \<and> (p = CHR ''o'' \<or> p = CHR ''O'') \<and> run_then_boundary is_octal rest
       | _ \<Rightarrow> False)
      \<or> (lb \<and> (case s of
                  z # p # rest \<Rightarrow>
                    z = CHR ''0'' \<and> (p = CHR ''x'' \<or> p = CHR ''X'') \<and> run_then_boundary is_hex rest
                | _ \<Rightarrow> False))
      \<or> (lb \<and> run_then_boundary is_digit s))"

fun literal_search :: "bool \<Rightarrow> string \<Rightarrow> bool" where
  "literal_search lb [] = False"
| "literal_search lb (c # cs) = (literal_at lb (c # cs) \<or> literal_search (\<not> word_char c) cs)"

subsection \<open>\<open>eval\<close> of a numeric literal\<close>

text \<open>
  \<open>eval(opcode)\<close> is modelled where \<open>opcode\<close> is a numeric literal: \<open>0o\<close> and octal
  digits, \<open>0x\<close> and hexadecimal digits, or decimal digits, which in the non-strict code of
  the converter are read in base 8 when there are several, the first is \<open>0\<close> and none
  is \<open>8\<close> or \<open>9\<close>. The literal denotes an integer and evaluates to the nearest double.
  On any other word that the pattern above accepts (a word that only ends with an octal
  literal, such as \<open>OP_0o7\<close>) \<open>eval\<close> raises a \<open>ReferenceError\<close> or a \<open>SyntaxError\<close>:
  the result is \<open>None\<close>. Strings that are not words do not reach the converter and are
  not modelled.
\<close>

definition digit_value :: "char \<Rightarrow> nat" where
  "digit_value c =
     (if is_digit c then of_char c - 48
      else if c \<in> set ''abcdef'' then of_char c - 87
      else of_char c - 55)"

definition digits_value :: "nat \<Rightarrow> string \<Rightarrow> nat" where
  "digits_value base ds = foldl (\<lambda>acc c. acc * base + digit_value c) 0 ds"

definition number_literal :: "nat \<Rightarrow> jsnum" where
  "number_literal n = round_double (of_nat n)"

definition decimal_literal :: "string \<Rightarrow> jsnum option" where
  "decimal_literal s =
     (if s \<noteq> [] \<and> list_all is_digit s
      then Some (number_literal
             (if 1 < length s \<and> hd s = CHR ''0'' \<and> list_all is_octal s
              then digits_value 8 s else digits_value 10 s))
      else None)"

definition eval_literal :: "string \<Rightarrow> jsnum option" where
  "eval_literal s =
     (case s of
        z # p # ds \<Rightarrow>
          if z = CHR ''0'' \<and> (p = CHR ''o'' \<or> p = CHR ''O'') \<and> ds \<noteq> [] \<and> list_all is_octal ds
          then Some (number_literal (digits_value 8 ds))
          else if z = CHR ''0'' \<and> (p = CHR ''x'' \<or> p = CHR ''X'') \<and> ds \<noteq> [] \<and> list_all is_hex ds
          then Some (number_literal (digits_value 16 ds))
          else decimal_literal s
      | _ \<Rightarrow> decimal_literal s)"

text \<open>
  \<open>num.toString(2).length\<close>: the number of binary digits of the integer part, one more
  character for a minus sign, and for a number with a fraction the point and the binary
  digits of the fraction (the denominator of a double is a power of two). The infinities
  and \<open>NaN\<close> print as their names.
\<close>

definition toString2_length :: "jsnum \<Rightarrow> nat" where
  "toString2_length num =
     (case num of
        Fin q \<Rightarrow>
          (if q < 0 then 1 else 0)
          + (if \<lfloor>\<bar>q\<bar>\<rfloor> = 0 then 1 else nat (bitlen \<lfloor>\<bar>q\<bar>\<rfloor>))
          + (if of_int \<lfloor>q\<rfloor> = q then 0 else 1 + nat (bitlen (snd (quotient_of q)) - 1))
      | PInf \<Rightarrow> length ''Infinity''
      | NInf \<Rightarrow> length ''-Infinity''
      | NaN \<Rightarrow> length ''NaN'')"

subsection \<open>The converter\<close>

definition named_number :: "string \<Rightarrow> int option" where
  "named_number = map_of
     [(''OP_0'', 0), (''OP_FALSE'', 0), (''OP_1NEGATE'', - 1), (''OP_1'', 1), (''OP_TRUE'', 1),
      (''OP_2'', 2), (''OP_3'', 3), (''OP_4'', 4), (''OP_5'', 5), (''OP_6'', 6), (''OP_7'', 7),
      (''OP_8'', 8), (''OP_9'', 9), (''OP_10'', 10), (''OP_11'', 11), (''OP_12'', 12),
      (''OP_13'', 13), (''OP_14'', 14), (''OP_15'', 15), (''OP_16'', 16)]"

text \<open>The result is \<open>None\<close> when \<open>eval\<close> raises.\<close>

definition convertNumbers :: "string \<Rightarrow> convertedOp option" where
  "convertNumbers opcode =
     (case (if has_OP_word opcode then named_number opcode else None) of
        Some n \<Rightarrow> Some \<lparr>op = ''OP_NUMBER'', val = Some (Fin (of_int n))\<rparr>
      | None \<Rightarrow>
          if literal_search True opcode
          then (case eval_literal opcode of
                  None \<Rightarrow> None
                | Some num \<Rightarrow>
                    if toString2_length num \<le> 4160
                    then Some \<lparr>op = ''OP_PUSHBYTES'', val = Some num\<rparr>
                    else Some \<lparr>op = opcode, val = None\<rparr>)
          else Some \<lparr>op = opcode, val = None\<rparr>)"

definition convertOpcode :: "string \<Rightarrow> convertedOp option" where
  "convertOpcode opcode = convertNumbers (convertHash (convertNop opcode))"

section \<open>The execution driver (extension.js)\<close>

text \<open>
  \<open>processLine\<close> handles one instruction line. Its first statement matches the line
  against the pattern of tokens; the result of that match, the token or nothing, is the
  argument \<open>matchedText\<close> here. The function mutates \<open>globalState\<close> and either returns
  \<open>Ok(true)\<close> or throws: the model returns the outcome and the global state it leaves.
  An exception is the \<open>ResultException\<close> raised by \<open>Err(newState.error)\<close>, the error
  raised by \<open>eval\<close> in the converter, or the \<open>TypeError\<close> of \<open>"error" in undefined\<close>.
\<close>

record GlobalState =
  shouldContinue :: bool
  shouldRender :: bool
  innerState :: State

datatype Result = Ok bool

datatype line_exn = Raised message | EvalRaised | TypeError

text \<open>
  The end of \<open>processLine\<close>: \<open>if (processed) { if ("error" in newState) ... }\<close>. The variable
  \<open>newState\<close> is \<open>None\<close> while it is \<open>undefined\<close>.
\<close>

definition finish_line ::
  "bool \<Rightarrow> (StateError + State) option \<Rightarrow> GlobalState \<Rightarrow> (line_exn + Result) \<times> GlobalState" where
  "finish_line processed newState globalState =
     (if processed
      then (case newState of
              None \<Rightarrow> (Inl TypeError, globalState)
            | Some (Inl (e, st)) \<Rightarrow> (Inl (Raised e), globalState\<lparr>shouldContinue := False\<rparr>)
            | Some (Inr new_state) \<Rightarrow> (Inr (Ok True), globalState\<lparr>innerState := new_state\<rparr>))
      else (Inr (Ok True), globalState))"

text \<open>
  \<open>globalState.shouldContinue = newState.if_result\<close> stores a boolean or \<open>undefined\<close>; the
  flag is only ever tested for truth, and \<open>undefined\<close> is false.
\<close>

definition processLine ::
  "builtins \<Rightarrow> string option \<Rightarrow> GlobalState \<Rightarrow> (line_exn + Result) \<times> GlobalState" where
  "processLine J matchedText globalState =
     (case matchedText of
        None \<Rightarrow> (Inr (Ok True), globalState)
      | Some tok \<Rightarrow>
         (case convertOpcode tok of
            None \<Rightarrow> (Inl EvalRaised, globalState)
          | Some convertedOpcode \<Rightarrow>
             let newState =
                   (case val convertedOpcode of
                      None \<Rightarrow> None
                    | Some v \<Rightarrow>
                       (case map_of customOpcodeList (op convertedOpcode) of
                          None \<Rightarrow> None
                        | Some opcodeFn \<Rightarrow> Some (Inr (opcodeFn v (innerState globalState)))))
             in (case map_of (opcodeList J) (op convertedOpcode) of
                   None \<Rightarrow> finish_line False newState globalState
                 | Some opcodeFn \<Rightarrow>
                    if op convertedOpcode = ''OP_IF'' \<or> op convertedOpcode = ''OP_NOTIF''
                    then let newState = opcodeFn (innerState globalState);
                             g1 = (case newState of
                                     Inl e \<Rightarrow> globalState
                                   | Inr new_state \<Rightarrow>
                                       globalState\<lparr>shouldContinue := (if_result new_state = Some True)\<rparr>);
                             g2 = g1\<lparr>shouldRender := False\<rparr>
                         in finish_line True (Some newState) g2
                    else if op convertedOpcode = ''OP_ELSE''
                    then finish_line False newState
                           (globalState\<lparr>shouldContinue := \<not> shouldContinue globalState,
                                        shouldRender := False\<rparr>)
                    else if op convertedOpcode = ''OP_ENDIF''
                    then let newState = opcodeFn (innerState globalState)
                         in finish_line True (Some newState)
                              (globalState\<lparr>shouldRender := False, shouldContinue := True\<rparr>)
                    else let g1 = globalState\<lparr>shouldRender := True\<rparr>
                         in if shouldContinue globalState
                            then finish_line True (Some (opcodeFn (innerState globalState))) g1
                            else finish_line False newState g1)))"

section \<open>An instance of the built-in conversions\<close>

text \<open>
  The concrete examples below need some \<open>builtins\<close>. \<open>decimal_builtins\<close> agrees with
  JavaScript where the examples use it: \<open>Number\<close> on the empty string, on decimal digits
  with an optional minus sign and on text that spells no number, and \<open>String\<close> on
  integers below \<open>10 ^ 21\<close>, the infinities and \<open>NaN\<close>. The other spellings of a number
  (a fraction, an exponent, a radix prefix, a plus sign, surrounding white space,
  \<open>Infinity\<close>) and the printing of other numbers are not covered by this instance, and no
  example uses them.
\<close>

definition decimal_Number :: "string \<Rightarrow> jsnum" where
  "decimal_Number s =
     (if s = [] then Fin 0
      else if list_all is_digit s then number_literal (digits_value 10 s)
      else (case s of
              c # ds \<Rightarrow>
                if c = CHR ''-'' \<and> ds \<noteq> [] \<and> list_all is_digit ds
                then js_neg (number_literal (digits_value 10 ds))
                else NaN
            | [] \<Rightarrow> NaN))"

function decimal_digits :: "nat \<Rightarrow> string" where
  "decimal_digits n =
     (if n < 10 then [char_of (48 + n)]
      else decimal_digits (n div 10) @ [char_of (48 + n mod 10)])"
  by pat_completeness auto
termination
  by (relation "measure id") auto

declare decimal_digits.simps [simp del]

definition decimal_String :: "jsnum \<Rightarrow> string" where
  "decimal_String num =
     (case num of
        Fin q \<Rightarrow>
          if of_int \<lfloor>q\<rfloor> = q
          then (if q < 0 then ''-'' else []) @ decimal_digits (nat \<lfloor>\<bar>q\<bar>\<rfloor>)
          else []
      | PInf \<Rightarrow> ''Infinity''
      | NInf \<Rightarrow> ''-Infinity''
      | NaN \<Rightarrow> ''NaN'')"

definition decimal_builtins :: builtins where
  "decimal_builtins = \<lparr>Number_of_string = decimal_Number, String_of_number = decimal_String\<rparr>"

section \<open>Tables and predicates of the properties\<close>

text \<open>
  \<open>operand_guard\<close> lists, for every opcode of \<open>opcodeList\<close> that takes operands from the
  main stack, how many it needs before it reads any of them (the operands its comment in
  the source lists; for \<open>OP_PICK\<close>, \<open>OP_ROLL\<close> and the multisig opcodes the leading count,
  the only operand known in advance) and the error it reports when they are missing.
  \<open>OP_1ADD\<close> and \<open>OP_1SUB\<close> have no check of their own: their error is the exception
  that \<open>Stack.pop\<close> raises on the empty stack. \<open>OP_DEPTH\<close>, \<open>OP_NOP\<close>, \<open>OP_ELSE\<close>,
  \<open>OP_ENDIF\<close> and \<open>OP_FROMALTSTACK\<close> take nothing from the main stack.
\<close>

definition operand_guard :: "(string \<times> nat \<times> message) list" where
  "operand_guard =
    [(''OP_0NOTEQUAL'', 1, Msg ''Need one item for 0NOTEQUAL''),
     (''OP_1ADD'', 1, Caught (ResultException ''Oops, the stack is empty!'')),
     (''OP_1SUB'', 1, Caught (ResultException ''Oops, the stack is empty!'')),
     (''OP_2DROP'', 2, Msg ''Need two items for 2DROP''),
     (''OP_2DUP'', 2, Msg ''requires two items for 2DUP''),
     (''OP_2OVER'', 4, Msg ''requires four items for 2OVER''),
     (''OP_2ROT'', 6, Msg ''Need six items for 2ROT''),
     (''OP_2SWAP'', 4, Msg ''Need four items for 2SWAP''),
     (''OP_3DUP'', 3, Msg ''Need three items for 3DUP''),
     (''OP_ABS'', 1, Msg ''Need one item for ABS''),
     (''OP_ADD'', 2, Msg ''Need two items for ADD''),
     (''OP_BOOLAND'', 2, Msg ''Need two items for BOOLAND''),
     (''OP_BOOLOR'', 2, Msg ''Need two items for BOOLOR''),
     (''OP_CAT'', 2, Msg ''Need two items for CAT''),
     (''OP_CHECKMULTISIG'', 1, Msg ''Need number of pubkeys for CHECKMULTISIG''),
     (''OP_CHECKMULTISIGVERIFY'', 1, Msg ''Need number of pubkeys for CHECKMULTISIGVERIFY''),
     (''OP_CHECKSIG'', 2, Msg ''Need pubkey and signature for CHECKSIG''),
     (''OP_CHECKSIGADD'', 3, Msg ''Need number, pubkey, and signature for CHECKSIGADD''),
     (''OP_CHECKSIGVERIFY'', 2, Msg ''Need pubkey and signature for CHECKSIGVERIFY''),
     (''OP_DROP'', 1, Msg ''Need one item for DROP''),
     (''OP_DUP'', 1, Msg ''Stack underflow''),
     (''OP_EQUAL'', 2, Msg ''Need two items for EQUAL''),
     (''OP_EQUALVERIFY'', 2, Msg ''Need two items for EQUALVERIFY''),
     (''OP_GREATERTHAN'', 2, Msg ''Need two items for GREATERTHAN''),
     (''OP_GREATERTHANOREQUAL'', 2, Msg ''Need two items for GREATERTHANOREQUAL''),
     (''OP_HASH'', 1, Msg ''Stack underflow''),
     (''OP_IF'', 1, Msg ''Need one item for IF''),
     (''OP_IFDUP'', 1, Msg ''Need one item for IFDUP''),
     (''OP_LESSTHAN'', 2, Msg ''Need two items for LESSTHAN''),
     (''OP_LESSTHANOREQUAL'', 2, Msg ''Need two items for LESSTHANOREQUAL''),
     (''OP_MAX'', 2, Msg ''Need two items for MAX''),
     (''OP_MIN'', 2, Msg ''Need two items for MIN''),
     (''OP_NEGATE'', 1, Msg ''Need one item for NEGATE''),
     (''OP_NIP'', 2, Msg ''Need two items for NIP''),
     (''OP_NOT'', 1, Msg ''Need one item for NOT''),
     (''OP_NOTIF'', 1, Msg ''Need one item for NOTIF''),
     (''OP_NUMEQUAL'', 2, Msg ''Need two items for NUMEQUAL''),
     (''OP_NUMEQUALVERIFY'', 2, Msg ''Need two items for NUMEQUALVERIFY''),
     (''OP_NUMNOTEQUAL'', 2, Msg ''Need two items for NUMNOTEQUAL''),
     (''OP_OVER'', 2, Msg ''Need two items for OVER''),
     (''OP_PICK'', 1, Msg ''Need index for PICK''),
     (''OP_ROLL'', 1, Msg ''Need index for ROLL''),
     (''OP_ROT'', 3, Msg ''Need three items for ROT''),
     (''OP_SIZE'', 1, Msg ''Need one item for SIZE''),
     (''OP_SUB'', 2, Msg ''Need two items for SUB''),
     (''OP_SWAP'', 2, Msg ''Need two items for SWAP''),
     (''OP_TOALTSTACK'', 1, Msg ''Stack underflow''),
     (''OP_TUCK'', 2, Msg ''Need two items for TUCK''),
     (''OP_VERIFY'', 1, Msg ''Need one item for VERIFY''),
     (''OP_WITHIN'', 3, Msg ''Need three items for WITHIN'')]"

text \<open>
  The binary numeric opcodes as the specification states them: each with its operation on
  a left operand \<open>l\<close> and a right operand \<open>r\<close>. The specification takes the second
  value of the stack as the left operand and the top as the right one.
\<close>

definition binary_numeric_spec :: "(string \<times> (jsnum \<Rightarrow> jsnum \<Rightarrow> jsnum)) list" where
  "binary_numeric_spec =
    [(''OP_ADD'', \<lambda>l r. js_add l r),
     (''OP_SUB'', \<lambda>l r. js_sub l r),
     (''OP_BOOLAND'', \<lambda>l r. bool_num (js_neq l (Fin 0) \<and> js_neq r (Fin 0))),
     (''OP_BOOLOR'', \<lambda>l r. bool_num (js_neq l (Fin 0) \<or> js_neq r (Fin 0))),
     (''OP_GREATERTHAN'', \<lambda>l r. bool_num (js_gt l r)),
     (''OP_GREATERTHANOREQUAL'', \<lambda>l r. bool_num (js_ge l r)),
     (''OP_LESSTHAN'', \<lambda>l r. bool_num (js_lt l r)),
     (''OP_LESSTHANOREQUAL'', \<lambda>l r. bool_num (js_le l r)),
     (''OP_MIN'', \<lambda>l r. Math_min l r),
     (''OP_MAX'', \<lambda>l r. Math_max l r),
     (''OP_NUMEQUAL'', \<lambda>l r. bool_num (js_eq l r)),
     (''OP_NUMNOTEQUAL'', \<lambda>l r. bool_num (js_neq l r))]"

text \<open>
  Three predicates on an opcode function, one for each property that is proved entry by
  entry over the table: the underflow error below a depth, the unchanged alt stack, and
  the result of a binary operation.
\<close>

definition underflows_below :: "nat \<Rightarrow> message \<Rightarrow> (State \<Rightarrow> StateError + State) \<Rightarrow> bool" where
  "underflows_below n m f = (\<forall>s. stack_size (main s) < n \<longrightarrow> f s = Inl (m, s))"

definition keeps_alt :: "(State \<Rightarrow> StateError + State) \<Rightarrow> bool" where
  "keeps_alt f = (\<forall>s s'. f s = Inr s' \<longrightarrow> alt s' = alt s)"

definition computes_binary ::
  "builtins \<Rightarrow> (jsnum \<Rightarrow> jsnum \<Rightarrow> jsnum) \<Rightarrow> (State \<Rightarrow> StateError + State) \<Rightarrow> bool" where
  "computes_binary J g f =
     (\<forall>s rest vb va b a.
        main s = rest @ [vb, va] \<longrightarrow> to_number J va = Inr a \<longrightarrow> to_number J vb = Inr b \<longrightarrow>
        f s = Inr (s\<lparr>main := rest @ [Num (g b a)]\<rparr>))"

section \<open>Basic facts\<close>

subsection \<open>Exceptions and the stack\<close>

lemma bnd_Inr [simp]: "bnd (Inr x) f = f x"
  by (simp add: bnd_def)

lemma bnd_Inl [simp]: "bnd (Inl e) f = Inl e"
  by (simp add: bnd_def)

lemma bnd_eq_InrD: "bnd m f = Inr y \<Longrightarrow> \<exists>x. m = Inr x \<and> f x = Inr y"
  by (cases m) simp_all

lemma pop_snoc [simp]: "pop (items @ [v]) = Inr (v, items)"
  by (simp add: pop_def)

lemma pop_snoc2 [simp]: "pop (items @ [w, v]) = Inr (v, items @ [w])"
  using pop_snoc[of "items @ [w]" v] by simp

lemma pop_Nil [simp]: "pop [] = Inl (ResultException ''Oops, the stack is empty!'')"
  by (simp add: pop_def Err_def)

lemma pop_Cons1 [simp]: "pop [v] = Inr (v, [])"
  using pop_snoc[of "[]" v] by simp

lemma try_catch_Inl [simp]: "try_catch state (Inl e) = Inl (Caught e, state)"
  by (simp add: try_catch_def error_def)

lemma try_catch_Inr [simp]: "try_catch state (Inr r) = r"
  by (simp add: try_catch_def)

lemma try_catch_eq_InrD: "try_catch state body = Inr s' \<Longrightarrow> body = Inr (Inr s')"
  by (cases body) (simp_all add: error_def)

lemma return_state_eq [simp]: "return_state new_state = Inr (Inr s') \<longleftrightarrow> new_state = s'"
  by (simp add: return_state_def)

lemma return_error_neq [simp]: "return_error m state \<noteq> Inr (Inr s')"
  by (simp add: return_error_def error_def)

lemma to_number_Num [simp]: "to_number J (Num n) = (if n = NaN then Inl (ResultException ''Invalid number'') else Inr n)"
  by (simp add: to_number_def isNaN_def)

lemma to_number_not_NaN: "to_number J v = Inr n \<Longrightarrow> n \<noteq> NaN"
  by (auto simp: to_number_def isNaN_def Let_def split: if_splits)

subsection \<open>Rounding\<close>

text \<open>\<open>ilog2\<close> is the integer part of the binary logarithm.\<close>

lemma pow2_pos: "0 < pow2 e"
  by (simp add: pow2_def)

lemma pow2_diff:
  assumes "0 \<le> a" "0 \<le> b"
  shows "pow2 (a - b) = 2 ^ nat a / 2 ^ nat b"
proof (cases "b \<le> a")
  case True
  then have "nat (a - b) = nat a - nat b" "nat b \<le> nat a"
    using assms by simp_all
  then show ?thesis
    using True by (simp add: pow2_def power_diff)
next
  case False
  then have "nat (- (a - b)) = nat b - nat a" "nat a \<le> nat b"
    using assms by simp_all
  then show ?thesis
    using False by (simp add: pow2_def power_diff)
qed

lemma ilog2_bounds:
  assumes "0 < x"
  shows "pow2 (ilog2 x) \<le> x \<and> x < pow2 (ilog2 x + 1)"
proof -
  obtain n d where q: "quotient_of x = (n, d)"
    by (cases "quotient_of x")
  have d: "0 < d"
    using q by (rule quotient_of_denom_pos)
  have x: "x = of_int n / of_int d"
    using q by (rule quotient_of_div)
  have n: "0 < n"
    using assms d by (simp add: x zero_less_divide_iff)
  define bn where "bn = bitlen n"
  define bd where "bd = bitlen d"
  have bn: "1 \<le> bn" and bd: "1 \<le> bd"
    using n d by (simp_all add: bn_def bd_def bitlen_ge_iff_power)
  have nb: "(2 :: rat) ^ nat (bn - 1) \<le> of_int n" "(of_int n :: rat) < 2 ^ nat bn"
    using bitlen_bounds[OF n] unfolding bn_def
    by (metis of_int_le_iff of_int_numeral of_int_power, metis of_int_less_iff of_int_numeral of_int_power)
  have db: "(2 :: rat) ^ nat (bd - 1) \<le> of_int d" "(of_int d :: rat) < 2 ^ nat bd"
    using bitlen_bounds[OF d] unfolding bd_def
    by (metis of_int_le_iff of_int_numeral of_int_power, metis of_int_less_iff of_int_numeral of_int_power)
  have dpos: "(0 :: rat) < of_int d"
    using d by simp
  have up: "x < pow2 (bn - bd + 1)"
  proof -
    have "x < 2 ^ nat bn / of_int d"
      unfolding x using nb(2) dpos by (simp add: divide_strict_right_mono)
    also have "\<dots> \<le> 2 ^ nat bn / 2 ^ nat (bd - 1)"
      using db(1) by (simp add: frac_le)
    also have "\<dots> = pow2 (bn - (bd - 1))"
      using bn bd by (simp add: pow2_diff)
    finally show ?thesis
      by (simp add: algebra_simps)
  qed
  have lo: "pow2 (bn - bd - 1) \<le> x"
  proof -
    have "pow2 (bn - 1 - bd) = 2 ^ nat (bn - 1) / 2 ^ nat bd"
      using bn bd by (simp add: pow2_diff)
    also have "\<dots> \<le> of_int n / 2 ^ nat bd"
      using nb(1) by (simp add: divide_right_mono)
    also have "\<dots> \<le> x"
      unfolding x using db(2) dpos nb(1) n by (simp add: frac_le)
    finally show ?thesis
      by (simp add: algebra_simps)
  qed
  show ?thesis
  proof (cases "pow2 (bn - bd) \<le> x")
    case True
    then show ?thesis
      using up by (simp add: ilog2_def q Let_def bn_def bd_def)
  next
    case False
    then show ?thesis
      using lo by (simp add: ilog2_def q Let_def bn_def bd_def)
  qed
qed


lemma pow2_powi: "pow2 e = 2 powi e"
  by (simp add: pow2_def power_int_def power_one_over inverse_eq_divide)

lemma pow2_mono: "a \<le> b \<Longrightarrow> pow2 a \<le> pow2 b"
  by (simp add: pow2_powi power_int_increasing)

lemma ilog2_ge:
  assumes "2 ^ 53 \<le> x"
  shows "53 \<le> ilog2 x"
proof (rule ccontr)
  assume "\<not> 53 \<le> ilog2 x"
  then have "pow2 (ilog2 x + 1) \<le> pow2 53"
    by (intro pow2_mono) simp
  also have "\<dots> = 2 ^ 53"
    by (simp add: pow2_def)
  finally have "pow2 (ilog2 x + 1) \<le> x"
    using assms by simp
  moreover have "0 < x"
    using assms by (rule less_le_trans[rotated]) simp
  ultimately show False
    using ilog2_bounds[of x] by simp
qed

lemma bitlen_one: "bitlen 1 = 1"
  using compute_bitlen[of 1] by simp

lemma ilog2_of_int_le:
  assumes "0 < k" "k < 2 ^ 53"
  shows "ilog2 (of_int k) \<le> 52"
proof -
  have "bitlen k \<le> 53"
    using assms by (simp add: bitlen_le_iff_power)
  then show ?thesis
    by (simp add: ilog2_def Let_def bitlen_one)
qed

text \<open>An integer below \<open>2 ^ 53\<close> is a double: rounding leaves it as it is.\<close>

lemma round_magnitude_int:
  assumes "0 < k" "k < 2 ^ 53"
  shows "round_magnitude (of_int k) = of_int k"
proof -
  define p where "p = max (ilog2 (of_int k) - 52) (- 1074)"
  have p: "p \<le> 0"
    using ilog2_of_int_le[OF assms] by (simp add: p_def)
  have pw: "pow2 p = 1 / 2 ^ nat (- p)"
    using p by (cases "p = 0") (simp_all add: pow2_def)
  define s where "s = (of_int k :: rat) / pow2 p"
  have s: "s = of_int (k * 2 ^ nat (- p))"
    by (simp add: s_def pw)
  have fl: "\<lfloor>s\<rfloor> = k * 2 ^ nat (- p)"
    unfolding s by (rule floor_of_int)
  have r: "of_int \<lfloor>s\<rfloor> * pow2 p = (of_int k :: rat)"
    by (simp add: fl pw)
  have f: "s - of_int \<lfloor>s\<rfloor> = 0"
    by (simp add: fl s)
  have "round_magnitude (of_int k) =
     of_int (if 1 / 2 < s - of_int \<lfloor>s\<rfloor> \<or> (s - of_int \<lfloor>s\<rfloor> = 1 / 2 \<and> odd \<lfloor>s\<rfloor>)
             then \<lfloor>s\<rfloor> + 1 else \<lfloor>s\<rfloor>) * pow2 p"
    unfolding round_magnitude_def Let_def p_def s_def ..
  also have "\<dots> = of_int k"
    unfolding f by (simp add: r)
  finally show ?thesis .
qed

lemma below_threshold:
  assumes "k < 2 ^ 53"
  shows "\<not> overflow_threshold \<le> of_int k"
proof -
  have "(of_int k :: rat) < of_int (2 ^ 53)"
    using assms by (simp only: of_int_less_iff)
  also have "\<dots> \<le> overflow_threshold"
    by (simp add: overflow_threshold_def)
  finally show ?thesis by simp
qed

lemma round_double_minus: "round_double (- y) = js_neg (round_double y)"
  by (simp add: round_double_def Let_def sgn_if)

lemma round_double_exact:
  assumes "x \<in> \<int>" "\<bar>x\<bar> < 2 ^ 53"
  shows "round_double x = Fin x"
proof -
  from assms(1) obtain k where x: "x = of_int k"
    by (auto elim: Ints_cases)
  have kb: "\<bar>k\<bar> < 2 ^ 53"
  proof -
    have "(of_int \<bar>k\<bar> :: rat) < of_int (2 ^ 53)"
      using assms(2) by (simp add: x)
    then show ?thesis by (simp only: of_int_less_iff)
  qed
  have pos: "round_double (of_int j) = Fin (of_int j)" if "0 < j" "j < 2 ^ 53" for j
    using that by (simp add: round_double_def round_magnitude_int below_threshold)
  consider "k = 0" | "0 < k" | "k < 0" by linarith
  then show ?thesis
  proof cases
    case 1
    then show ?thesis by (simp add: x round_double_def)
  next
    case 2
    then show ?thesis using kb pos[of k] by (simp add: x)
  next
    case 3
    then have "0 < - k" "- k < 2 ^ 53" using kb by simp_all
    then have "round_double (of_int (- k)) = Fin (of_int (- k))" by (rule pos)
    then have "round_double (- of_int k) = Fin (- of_int k)" by simp
    then show ?thesis
      by (cases "round_double (of_int k)") (simp_all add: x round_double_minus)
  qed
qed

text \<open>An integer of \<open>2 ^ 1024\<close> or more rounds to \<open>Infinity\<close>.\<close>

lemma round_double_overflow:
  assumes "2 ^ 1024 \<le> n"
  shows "round_double (of_int n) = PInf"
proof -
  have n0: "0 < n"
    using assms by (rule less_le_trans[rotated]) simp
  define b where "b = bitlen n"
  have b: "1025 \<le> b"
    using assms by (simp add: b_def bitlen_ge_iff_power)
  have lo: "2 ^ nat (b - 1) \<le> n"
    using bitlen_bounds[OF n0] by (simp add: b_def)
  have lo': "(2 :: rat) ^ nat (b - 1) \<le> of_int n"
  proof -
    have "(of_int (2 ^ nat (b - 1)) :: rat) \<le> of_int n"
      using lo by (simp only: of_int_le_iff)
    then show ?thesis by simp
  qed
  have il: "ilog2 (of_int n) = b - 1"
    using lo' b by (simp add: ilog2_def Let_def bitlen_one b_def pow2_def)
  define p where "p = nat (b - 53)"
  have pm: "max (ilog2 (of_int n) - 52) (- 1074) = int p"
    using b by (simp add: il p_def)
  have pw: "pow2 (int p) = 2 ^ p"
    by (simp add: pow2_def)
  have split: "nat (b - 1) = 52 + p"
    using b by (simp add: p_def)
  define s where "s = (of_int n :: rat) / 2 ^ p"
  have s52: "2 ^ 52 \<le> s"
  proof -
    have "(2 :: rat) ^ 52 * 2 ^ p \<le> of_int n"
      using lo' by (simp add: split power_add)
    then show ?thesis by (simp add: s_def pos_le_divide_eq)
  qed
  have q52: "2 ^ 52 \<le> \<lfloor>s\<rfloor>"
  proof -
    have "(of_int (2 ^ 52) :: rat) \<le> s" using s52 by simp
    then show ?thesis by (simp only: le_floor_iff)
  qed
  define q' where "q' =
    (if 1 / 2 < s - of_int \<lfloor>s\<rfloor> \<or> (s - of_int \<lfloor>s\<rfloor> = 1 / 2 \<and> odd \<lfloor>s\<rfloor>)
     then \<lfloor>s\<rfloor> + 1 else \<lfloor>s\<rfloor>)"
  have q': "2 ^ 52 \<le> q'"
    using q52 by (simp add: q'_def)
  have rm: "round_magnitude (of_int n) = of_int q' * 2 ^ p"
    unfolding round_magnitude_def Let_def pm pw q'_def s_def ..
  have "(2 :: rat) ^ 1024 \<le> 2 ^ nat (b - 1)"
    using b by (intro power_increasing) simp_all
  also have "\<dots> = of_int (2 ^ 52) * 2 ^ p"
    by (simp add: split power_add)
  also have "\<dots> \<le> of_int q' * 2 ^ p"
    using q' by (intro mult_right_mono) (simp_all only: of_int_le_iff zero_le_power zero_le_numeral)
  finally have "overflow_threshold \<le> round_magnitude (of_int n)"
    by (simp add: rm overflow_threshold_def)
  then show ?thesis
    using n0 by (simp add: round_double_def)
qed

text \<open>
  A natural number rounds to \<open>Infinity\<close> or to an integer below \<open>2 ^ 1024\<close>, which
  has at most 1024 binary digits.
\<close>

lemma round_double_large_nat:
  assumes "2 ^ 53 \<le> n"
  shows "round_double (of_nat n) = PInf \<or>
         (\<exists>k. 0 \<le> k \<and> k < 2 ^ 1024 \<and> round_double (of_nat n) = Fin (of_int k))"
proof -
  let ?x = "of_nat n :: rat"
  have x53: "2 ^ 53 \<le> ?x"
    using assms by (metis of_nat_le_iff of_nat_numeral of_nat_power)
  then have x0: "0 < ?x"
    by (rule less_le_trans[rotated]) simp
  define p where "p = nat (ilog2 ?x - 52)"
  have pm: "max (ilog2 ?x - 52) (- 1074) = int p"
    using ilog2_ge[OF x53] by (simp add: p_def)
  have pw: "pow2 (int p) = 2 ^ p"
    by (simp add: pow2_def)
  define s where "s = ?x / 2 ^ p"
  have s0: "0 \<le> s"
    by (simp add: s_def)
  define q' where "q' =
    (if 1 / 2 < s - of_int \<lfloor>s\<rfloor> \<or> (s - of_int \<lfloor>s\<rfloor> = 1 / 2 \<and> odd \<lfloor>s\<rfloor>)
     then \<lfloor>s\<rfloor> + 1 else \<lfloor>s\<rfloor>)"
  have q': "0 \<le> q'"
    using s0 by (simp add: q'_def)
  have rm: "round_magnitude ?x = of_int (q' * 2 ^ p)"
    unfolding round_magnitude_def Let_def pm pw by (simp add: q'_def s_def)
  show ?thesis
  proof (cases "overflow_threshold \<le> round_magnitude ?x")
    case True
    then show ?thesis
      using x0 by (simp add: round_double_def)
  next
    case False
    then have "(of_int (q' * 2 ^ p) :: rat) < of_int (2 ^ 1024)"
      by (simp add: rm overflow_threshold_def)
    then have "q' * 2 ^ p < 2 ^ 1024"
      by (simp only: of_int_less_iff)
    moreover have "0 \<le> q' * 2 ^ p"
      using q' by simp
    moreover have "round_double ?x = Fin (of_int (q' * 2 ^ p))"
      using False x0 by (simp add: round_double_def rm)
    ultimately show ?thesis
      by blast
  qed
qed

lemma toString2_length_int:
  assumes "0 \<le> k" "k < 2 ^ 1024"
  shows "toString2_length (Fin (of_int k)) \<le> 1024"
proof -
  have "bitlen k \<le> 1024"
    using assms by (simp add: bitlen_le_iff_power)
  then have "nat (bitlen k) \<le> 1024"
    by simp
  then show ?thesis
    using assms(1) by (simp add: toString2_length_def)
qed

lemma number_literal_length: "toString2_length (number_literal n) \<le> 1024"
proof (cases "n < 2 ^ 53")
  case True
  then have "(of_nat n :: rat) < 2 ^ 53"
    by (metis of_nat_less_iff of_nat_numeral of_nat_power)
  then have "round_double (of_nat n) = Fin (of_int (int n))"
    by (simp add: round_double_exact)
  moreover have "int n < 2 ^ 1024"
  proof -
    have "int n < 2 ^ 53"
      using True by (metis of_nat_less_iff of_nat_numeral of_nat_power)
    also have "\<dots> \<le> (2 :: int) ^ 1024"
      by (simp add: power_increasing)
    finally show ?thesis .
  qed
  ultimately show ?thesis
    using toString2_length_int[of "int n"] by (simp add: number_literal_def)
next
  case False
  then have "2 ^ 53 \<le> n"
    by simp
  from round_double_large_nat[OF this] show ?thesis
    by (auto simp: number_literal_def toString2_length_int) (simp add: toString2_length_def)
qed

text \<open>Two values of the rounding at \<open>2 ^ 53\<close>, where the doubles are the even integers.\<close>

lemma bitlen_2_53: "bitlen 9007199254740992 = 54"
  by (rule antisym) (simp_all add: bitlen_le_iff_power bitlen_ge_iff_power)

lemma bitlen_2_53_plus_1: "bitlen 9007199254740993 = 54"
  by (rule antisym) (simp_all add: bitlen_le_iff_power bitlen_ge_iff_power)

lemma round_double_2_53: "round_double 9007199254740992 = Fin 9007199254740992"
proof -
  have il: "ilog2 9007199254740992 = 53"
    by (simp add: ilog2_def bitlen_2_53 bitlen_one pow2_def)
  have fl: "\<lfloor>(9007199254740992 :: rat) / 2\<rfloor> = 4503599627370496"
    by (rule floor_unique) simp_all
  show ?thesis
    by (simp add: round_double_def round_magnitude_def il pow2_def fl overflow_threshold_def
         Let_def)
qed

lemma round_double_2_53_plus_1: "round_double 9007199254740993 = Fin 9007199254740992"
proof -
  have il: "ilog2 9007199254740993 = 53"
    by (simp add: ilog2_def bitlen_2_53_plus_1 bitlen_one pow2_def)
  have fl: "\<lfloor>(9007199254740993 :: rat) / 2\<rfloor> = 4503599627370496"
    by (rule floor_unique) simp_all
  show ?thesis
    by (simp add: round_double_def round_magnitude_def il pow2_def fl overflow_threshold_def
         Let_def)
qed

lemma js_eq_zero: "js_eq n (Fin 0) \<longleftrightarrow> n = Fin 0"
  by (auto simp: js_eq_def)

lemma js_neq_zero: "js_neq n (Fin 0) \<longleftrightarrow> n \<noteq> Fin 0"
  by (auto simp: js_neq_def js_eq_def)

lemma js_lt_total: "x \<noteq> NaN \<Longrightarrow> y \<noteq> NaN \<Longrightarrow> \<not> js_lt x y \<Longrightarrow> \<not> js_lt y x \<Longrightarrow> x = y"
  by (cases x; cases y) simp_all

lemma js_lt_asym: "js_lt x y \<Longrightarrow> \<not> js_lt y x"
  by (cases x; cases y) simp_all

lemma Math_max_commute: "Math_max x y = Math_max y x"
  using js_lt_total[of x y] js_lt_asym[of x y]
  by (auto simp: Math_max_def isNaN_def)

lemma Math_min_commute: "Math_min x y = Math_min y x"
  using js_lt_total[of x y] js_lt_asym[of x y]
  by (auto simp: Math_min_def isNaN_def)

subsection \<open>The loops\<close>

text \<open>With the bound \<open>Infinity\<close> the first loop of \<open>OP_ROLL\<close> never returns a stack.\<close>

lemma roll_pop_Infinity:
  "roll_pop i PInf items temp_stack = Inl (ResultException ''Oops, the stack is empty!'')"
proof (induction items arbitrary: i temp_stack rule: rev_induct)
  case Nil
  show ?case
    by (subst roll_pop.simps) simp
next
  case (snoc v items)
  show ?case
    by (subst roll_pop.simps) (simp add: snoc.IH)
qed

subsection \<open>The driver and the converter\<close>

lemma finish_line_Inr [simp]:
  "finish_line True (Some (Inr new_state)) g = (Inr (Ok True), g\<lparr>innerState := new_state\<rparr>)"
  by (simp add: finish_line_def)

lemma finish_line_Inl [simp]:
  "finish_line True (Some (Inl (e, st))) g = (Inl (Raised e), g\<lparr>shouldContinue := False\<rparr>)"
  by (simp add: finish_line_def)

lemma finish_line_False [simp]: "finish_line False newState g = (Inr (Ok True), g)"
  by (simp add: finish_line_def)

lemma OP_IF_result:
  assumes "main s = rest @ [v]" "to_number J v = Inr n"
  shows "OP_IF J s = Inr (s\<lparr>main := rest, if_result := Some (n \<noteq> Fin 0)\<rparr>)"
  using assms
  by (simp add: OP_IF_def deepCopy_def stack_size_def return_state_def js_neq_zero)

lemma OP_NOTIF_result:
  assumes "main s = rest @ [v]" "to_number J v = Inr n"
  shows "OP_NOTIF J s = Inr (s\<lparr>main := rest, if_result := Some (n = Fin 0)\<rparr>)"
  using assms
  by (simp add: OP_NOTIF_def deepCopy_def stack_size_def return_state_def js_eq_zero)

text \<open>
  The checks of operands whose number is only known once the leading count is read, and
  the check of the alt stack: each returns its error beside the state it was given.
\<close>

lemma opcode_underflow_dynamic:
  "main s = rest @ [v] \<Longrightarrow> to_number J v = Inr n \<Longrightarrow> js_lt (size_num rest) (js_add n (Fin 1)) \<Longrightarrow>
     OP_PICK J s = Inl (Msg ''Stack too small for PICK'', s)"
  "main s = rest @ [v] \<Longrightarrow> to_number J v = Inr n \<Longrightarrow> js_lt (size_num rest) (js_add n (Fin 1)) \<Longrightarrow>
     OP_ROLL J s = Inl (Msg ''Stack too small for ROLL'', s)"
  "main s = rest @ [v] \<Longrightarrow> to_number J v = Inr n \<Longrightarrow> js_lt (size_num rest) n \<Longrightarrow>
     OP_CHECKMULTISIG J s = Inl (Msg ''Stack underflow: not enough pubkeys'', s)"
  "main s = rest @ [v] \<Longrightarrow> to_number J v = Inr n \<Longrightarrow> js_lt (size_num rest) n \<Longrightarrow>
     OP_CHECKMULTISIGVERIFY J s = Inl (Msg ''Stack underflow: not enough pubkeys'', s)"
  "stack_size (alt s) = 0 \<Longrightarrow> OP_FROMALTSTACK s = Inl (Msg ''Alt stack underflow'', s)"
  by (simp_all add: OP_PICK_def OP_ROLL_def OP_CHECKMULTISIG_def OP_CHECKMULTISIGVERIFY_def
       OP_FROMALTSTACK_def deepCopy_def stack_size_def return_error_def error_def)

lemma convertOpcode_plain:
  "convertOpcode ''OP_IF'' = Some \<lparr>op = ''OP_IF'', val = None\<rparr>"
  "convertOpcode ''OP_ELSE'' = Some \<lparr>op = ''OP_ELSE'', val = None\<rparr>"
  "convertOpcode ''OP_ADD'' = Some \<lparr>op = ''OP_ADD'', val = None\<rparr>"
  by (simp_all add: convertOpcode_def convertNop_def convertHash_def trim_def is_white_space_def
       convertNumbers_def literal_at_def run_then_boundary_def is_hex_def is_octal_def
       is_digit_def word_char_def named_number_def)

lemma dropWhile_hd: "s \<noteq> [] \<Longrightarrow> \<not> P (hd s) \<Longrightarrow> dropWhile P s = s"
  by (cases s) simp_all

lemma trim_id:
  assumes "s \<noteq> []" "\<not> is_white_space (hd s)" "\<not> is_white_space (last s)"
  shows "trim s = s"
proof -
  have "dropWhile is_white_space (rev s) = rev s"
    using assms by (intro dropWhile_hd) (simp_all add: hd_rev)
  then show ?thesis
    using assms by (simp add: trim_def dropWhile_hd)
qed

lemma has_OP_wordD: "has_OP_word s \<Longrightarrow> CHR ''O'' \<in> set s"
  by (induction s rule: has_OP_word.induct) auto

lemma digits_value_append_zeros:
  "digits_value b (ds @ replicate k (CHR ''0'')) = digits_value b ds * b ^ k"
proof (induction k)
  case 0
  then show ?case by simp
next
  case (Suc k)
  have "digits_value b (ds @ replicate (Suc k) (CHR ''0'')) =
        digits_value b ((ds @ replicate k (CHR ''0'')) @ [CHR ''0''])"
    by (simp add: replicate_append_same)
  also have "\<dots> = digits_value b (ds @ replicate k (CHR ''0'')) * b"
    unfolding digits_value_def foldl_append by (simp add: digit_value_def is_digit_def)
  finally show ?case
    by (simp add: Suc.IH)
qed

lemma number_literal_overflow:
  assumes "2 ^ 1024 \<le> n"
  shows "number_literal n = PInf"
proof -
  from assms have "2 ^ 1024 \<le> int n"
    by (metis of_nat_le_iff of_nat_numeral of_nat_power)
  then have "round_double (of_int (int n)) = PInf"
    by (rule round_double_overflow)
  then show ?thesis
    by (simp add: number_literal_def)
qed

lemma hex_digits_value: "digits_value 16 (CHR ''1'' # replicate 1040 (CHR ''0'')) = 16 ^ 1040"
  using digits_value_append_zeros[of 16 "''1''" 1040]
  by (simp add: digits_value_def digit_value_def is_digit_def)

lemma sixteen_pow: "(2 :: nat) ^ 1024 \<le> 16 ^ 1040"
proof -
  have "(16 :: nat) ^ 1040 = 2 ^ 4160"
    using power_mult[of "2 :: nat" 4 1040] by simp
  then show ?thesis
    by (simp add: power_increasing)
qed

text \<open>
  The test \<open>num.toString(2).length <= 4160\<close> never fails: a token in which the pattern of
  literals matches is never passed through unchanged.
\<close>

lemma eval_literal_length: "eval_literal s = Some num \<Longrightarrow> toString2_length num \<le> 4160"
  using number_literal_length[of "digits_value 8 (drop 2 s)"]
    number_literal_length[of "digits_value 16 (drop 2 s)"]
    number_literal_length[of "digits_value 8 s"]
    number_literal_length[of "digits_value 10 s"]
  by (auto simp: eval_literal_def decimal_literal_def split: list.splits if_splits)

lemma literal_never_passes_through:
  assumes "literal_search True opcode"
  shows "convertNumbers opcode \<noteq> Some \<lparr>op = opcode, val = None\<rparr>"
  using assms eval_literal_length[of opcode]
  by (auto simp: convertNumbers_def split: option.splits if_splits)

text \<open>The scenario of the specification: the literal \<open>0x1f\<close> is the push of 31.\<close>

lemma hex_literal_0x1f:
  "convertOpcode ''0x1f'' = Some \<lparr>op = ''OP_PUSHBYTES'', val = Some (Fin 31)\<rparr>"
  by (simp add: convertOpcode_def convertNop_def convertHash_def trim_def is_white_space_def
       convertNumbers_def literal_at_def run_then_boundary_def is_hex_def is_octal_def
       is_digit_def word_char_def eval_literal_def number_literal_def digits_value_def
       digit_value_def round_double_exact toString2_length_def bitlen_le_iff_power
       nat_le_iff named_number_def)

subsection \<open>The instance of the built-ins on some numerals\<close>

lemma decimal_to_number_digits:
  "to_number decimal_builtins (Str ''0'') = Inr (Fin 0)"
  "to_number decimal_builtins (Str ''1'') = Inr (Fin 1)"
  "to_number decimal_builtins (Str ''3'') = Inr (Fin 3)"
  "to_number decimal_builtins (Str ''4'') = Inr (Fin 4)"
  "to_number decimal_builtins (Str ''5'') = Inr (Fin 5)"
  "to_number decimal_builtins (Str ''10'') = Inr (Fin 10)"
  "to_number decimal_builtins (Str ''9007199254740992'') = Inr (Fin 9007199254740992)"
  by (simp_all add: to_number_def decimal_builtins_def decimal_Number_def is_digit_def
       number_literal_def digits_value_def digit_value_def round_double_exact isNaN_def
       round_double_2_53)

subsection \<open>Every entry of the opcode table\<close>

lemma opcodeList_lookup:
  "map_of (opcodeList J) ''OP_0NOTEQUAL'' = Some (OP_0NOTEQUAL J)"
  "map_of (opcodeList J) ''OP_1ADD'' = Some (OP_1ADD J)"
  "map_of (opcodeList J) ''OP_1SUB'' = Some (OP_1SUB J)"
  "map_of (opcodeList J) ''OP_2DROP'' = Some (OP_2DROP)"
  "map_of (opcodeList J) ''OP_2DUP'' = Some (OP_2DUP)"
  "map_of (opcodeList J) ''OP_2OVER'' = Some (OP_2OVER)"
  "map_of (opcodeList J) ''OP_2ROT'' = Some (OP_2ROT)"
  "map_of (opcodeList J) ''OP_2SWAP'' = Some (OP_2SWAP)"
  "map_of (opcodeList J) ''OP_3DUP'' = Some (OP_3DUP)"
  "map_of (opcodeList J) ''OP_ABS'' = Some (OP_ABS J)"
  "map_of (opcodeList J) ''OP_ADD'' = Some (OP_ADD J)"
  "map_of (opcodeList J) ''OP_BOOLAND'' = Some (OP_BOOLAND J)"
  "map_of (opcodeList J) ''OP_BOOLOR'' = Some (OP_BOOLOR J)"
  "map_of (opcodeList J) ''OP_CAT'' = Some (OP_CAT J)"
  "map_of (opcodeList J) ''OP_CHECKMULTISIG'' = Some (OP_CHECKMULTISIG J)"
  "map_of (opcodeList J) ''OP_CHECKMULTISIGVERIFY'' = Some (OP_CHECKMULTISIGVERIFY J)"
  "map_of (opcodeList J) ''OP_CHECKSIG'' = Some (OP_CHECKSIG)"
  "map_of (opcodeList J) ''OP_CHECKSIGADD'' = Some (OP_CHECKSIGADD J)"
  "map_of (opcodeList J) ''OP_CHECKSIGVERIFY'' = Some (OP_CHECKSIGVERIFY J)"
  "map_of (opcodeList J) ''OP_DEPTH'' = Some (OP_DEPTH)"
  "map_of (opcodeList J) ''OP_DROP'' = Some (OP_DROP)"
  "map_of (opcodeList J) ''OP_DUP'' = Some (OP_DUP)"
  "map_of (opcodeList J) ''OP_ELSE'' = Some (OP_ELSE)"
  "map_of (opcodeList J) ''OP_ENDIF'' = Some (OP_ENDIF)"
  "map_of (opcodeList J) ''OP_EQUAL'' = Some (OP_EQUAL)"
  "map_of (opcodeList J) ''OP_EQUALVERIFY'' = Some (OP_EQUALVERIFY J)"
  "map_of (opcodeList J) ''OP_FROMALTSTACK'' = Some (OP_FROMALTSTACK)"
  "map_of (opcodeList J) ''OP_GREATERTHAN'' = Some (OP_GREATERTHAN J)"
  "map_of (opcodeList J) ''OP_GREATERTHANOREQUAL'' = Some (OP_GREATERTHANOREQUAL J)"
  "map_of (opcodeList J) ''OP_HASH'' = Some (OP_HASH J)"
  "map_of (opcodeList J) ''OP_IF'' = Some (OP_IF J)"
  "map_of (opcodeList J) ''OP_IFDUP'' = Some (OP_IFDUP J)"
  "map_of (opcodeList J) ''OP_LESSTHAN'' = Some (OP_LESSTHAN J)"
  "map_of (opcodeList J) ''OP_LESSTHANOREQUAL'' = Some (OP_LESSTHANOREQUAL J)"
  "map_of (opcodeList J) ''OP_MAX'' = Some (OP_MAX J)"
  "map_of (opcodeList J) ''OP_MIN'' = Some (OP_MIN J)"
  "map_of (opcodeList J) ''OP_NEGATE'' = Some (OP_NEGATE J)"
  "map_of (opcodeList J) ''OP_NIP'' = Some (OP_NIP)"
  "map_of (opcodeList J) ''OP_NOP'' = Some (OP_NOP)"
  "map_of (opcodeList J) ''OP_NOT'' = Some (OP_NOT J)"
  "map_of (opcodeList J) ''OP_NOTIF'' = Some (OP_NOTIF J)"
  "map_of (opcodeList J) ''OP_NUMEQUAL'' = Some (OP_NUMEQUAL J)"
  "map_of (opcodeList J) ''OP_NUMEQUALVERIFY'' = Some (OP_NUMEQUALVERIFY J)"
  "map_of (opcodeList J) ''OP_NUMNOTEQUAL'' = Some (OP_NUMNOTEQUAL J)"
  "map_of (opcodeList J) ''OP_OVER'' = Some (OP_OVER)"
  "map_of (opcodeList J) ''OP_PICK'' = Some (OP_PICK J)"
  "map_of (opcodeList J) ''OP_ROLL'' = Some (OP_ROLL J)"
  "map_of (opcodeList J) ''OP_ROT'' = Some (OP_ROT)"
  "map_of (opcodeList J) ''OP_SIZE'' = Some (OP_SIZE J)"
  "map_of (opcodeList J) ''OP_SUB'' = Some (OP_SUB J)"
  "map_of (opcodeList J) ''OP_SWAP'' = Some (OP_SWAP)"
  "map_of (opcodeList J) ''OP_TOALTSTACK'' = Some (OP_TOALTSTACK)"
  "map_of (opcodeList J) ''OP_TUCK'' = Some (OP_TUCK)"
  "map_of (opcodeList J) ''OP_VERIFY'' = Some (OP_VERIFY J)"
  "map_of (opcodeList J) ''OP_WITHIN'' = Some (OP_WITHIN J)"
  by (simp_all add: opcodeList_def)

lemma opcode_underflow:
  "underflows_below 1 (Msg ''Need one item for 0NOTEQUAL'') (OP_0NOTEQUAL J)"
  "underflows_below 1 (Caught (ResultException ''Oops, the stack is empty!'')) (OP_1ADD J)"
  "underflows_below 1 (Caught (ResultException ''Oops, the stack is empty!'')) (OP_1SUB J)"
  "underflows_below 2 (Msg ''Need two items for 2DROP'') (OP_2DROP)"
  "underflows_below 2 (Msg ''requires two items for 2DUP'') (OP_2DUP)"
  "underflows_below 4 (Msg ''requires four items for 2OVER'') (OP_2OVER)"
  "underflows_below 6 (Msg ''Need six items for 2ROT'') (OP_2ROT)"
  "underflows_below 4 (Msg ''Need four items for 2SWAP'') (OP_2SWAP)"
  "underflows_below 3 (Msg ''Need three items for 3DUP'') (OP_3DUP)"
  "underflows_below 1 (Msg ''Need one item for ABS'') (OP_ABS J)"
  "underflows_below 2 (Msg ''Need two items for ADD'') (OP_ADD J)"
  "underflows_below 2 (Msg ''Need two items for BOOLAND'') (OP_BOOLAND J)"
  "underflows_below 2 (Msg ''Need two items for BOOLOR'') (OP_BOOLOR J)"
  "underflows_below 2 (Msg ''Need two items for CAT'') (OP_CAT J)"
  "underflows_below 1 (Msg ''Need number of pubkeys for CHECKMULTISIG'') (OP_CHECKMULTISIG J)"
  "underflows_below 1 (Msg ''Need number of pubkeys for CHECKMULTISIGVERIFY'') (OP_CHECKMULTISIGVERIFY J)"
  "underflows_below 2 (Msg ''Need pubkey and signature for CHECKSIG'') (OP_CHECKSIG)"
  "underflows_below 3 (Msg ''Need number, pubkey, and signature for CHECKSIGADD'') (OP_CHECKSIGADD J)"
  "underflows_below 2 (Msg ''Need pubkey and signature for CHECKSIGVERIFY'') (OP_CHECKSIGVERIFY J)"
  "underflows_below 1 (Msg ''Need one item for DROP'') (OP_DROP)"
  "underflows_below 1 (Msg ''Stack underflow'') (OP_DUP)"
  "underflows_below 2 (Msg ''Need two items for EQUAL'') (OP_EQUAL)"
  "underflows_below 2 (Msg ''Need two items for EQUALVERIFY'') (OP_EQUALVERIFY J)"
  "underflows_below 2 (Msg ''Need two items for GREATERTHAN'') (OP_GREATERTHAN J)"
  "underflows_below 2 (Msg ''Need two items for GREATERTHANOREQUAL'') (OP_GREATERTHANOREQUAL J)"
  "underflows_below 1 (Msg ''Stack underflow'') (OP_HASH J)"
  "underflows_below 1 (Msg ''Need one item for IF'') (OP_IF J)"
  "underflows_below 1 (Msg ''Need one item for IFDUP'') (OP_IFDUP J)"
  "underflows_below 2 (Msg ''Need two items for LESSTHAN'') (OP_LESSTHAN J)"
  "underflows_below 2 (Msg ''Need two items for LESSTHANOREQUAL'') (OP_LESSTHANOREQUAL J)"
  "underflows_below 2 (Msg ''Need two items for MAX'') (OP_MAX J)"
  "underflows_below 2 (Msg ''Need two items for MIN'') (OP_MIN J)"
  "underflows_below 1 (Msg ''Need one item for NEGATE'') (OP_NEGATE J)"
  "underflows_below 2 (Msg ''Need two items for NIP'') (OP_NIP)"
  "underflows_below 1 (Msg ''Need one item for NOT'') (OP_NOT J)"
  "underflows_below 1 (Msg ''Need one item for NOTIF'') (OP_NOTIF J)"
  "underflows_below 2 (Msg ''Need two items for NUMEQUAL'') (OP_NUMEQUAL J)"
  "underflows_below 2 (Msg ''Need two items for NUMEQUALVERIFY'') (OP_NUMEQUALVERIFY J)"
  "underflows_below 2 (Msg ''Need two items for NUMNOTEQUAL'') (OP_NUMNOTEQUAL J)"
  "underflows_below 2 (Msg ''Need two items for OVER'') (OP_OVER)"
  "underflows_below 1 (Msg ''Need index for PICK'') (OP_PICK J)"
  "underflows_below 1 (Msg ''Need index for ROLL'') (OP_ROLL J)"
  "underflows_below 3 (Msg ''Need three items for ROT'') (OP_ROT)"
  "underflows_below 1 (Msg ''Need one item for SIZE'') (OP_SIZE J)"
  "underflows_below 2 (Msg ''Need two items for SUB'') (OP_SUB J)"
  "underflows_below 2 (Msg ''Need two items for SWAP'') (OP_SWAP)"
  "underflows_below 1 (Msg ''Stack underflow'') (OP_TOALTSTACK)"
  "underflows_below 2 (Msg ''Need two items for TUCK'') (OP_TUCK)"
  "underflows_below 1 (Msg ''Need one item for VERIFY'') (OP_VERIFY J)"
  "underflows_below 3 (Msg ''Need three items for WITHIN'') (OP_WITHIN J)"
  by (simp_all add: underflows_below_def error_def return_error_def deepCopy_def
       stack_size_def
       OP_0NOTEQUAL_def OP_1ADD_def OP_1SUB_def OP_2DROP_def OP_2DUP_def OP_2OVER_def
       OP_2ROT_def OP_2SWAP_def OP_3DUP_def OP_ABS_def OP_ADD_def OP_BOOLAND_def
       OP_BOOLOR_def OP_CAT_def OP_CHECKMULTISIG_def OP_CHECKMULTISIGVERIFY_def
       OP_CHECKSIG_def OP_CHECKSIGADD_def OP_CHECKSIGVERIFY_def OP_DROP_def OP_DUP_def
       OP_EQUAL_def OP_EQUALVERIFY_def OP_GREATERTHAN_def OP_GREATERTHANOREQUAL_def
       OP_HASH_def OP_IF_def OP_IFDUP_def OP_LESSTHAN_def OP_LESSTHANOREQUAL_def OP_MAX_def
       OP_MIN_def OP_NEGATE_def OP_NIP_def OP_NOT_def OP_NOTIF_def OP_NUMEQUAL_def
       OP_NUMEQUALVERIFY_def OP_NUMNOTEQUAL_def OP_OVER_def OP_PICK_def OP_ROLL_def
       OP_ROT_def OP_SIZE_def OP_SUB_def OP_SWAP_def OP_TOALTSTACK_def OP_TUCK_def
       OP_VERIFY_def OP_WITHIN_def)

lemma opcode_keeps_alt:
  "keeps_alt (OP_0NOTEQUAL J)"
  "keeps_alt (OP_1ADD J)"
  "keeps_alt (OP_1SUB J)"
  "keeps_alt (OP_2DROP)"
  "keeps_alt (OP_2DUP)"
  "keeps_alt (OP_2OVER)"
  "keeps_alt (OP_2ROT)"
  "keeps_alt (OP_2SWAP)"
  "keeps_alt (OP_3DUP)"
  "keeps_alt (OP_ABS J)"
  "keeps_alt (OP_ADD J)"
  "keeps_alt (OP_BOOLAND J)"
  "keeps_alt (OP_BOOLOR J)"
  "keeps_alt (OP_CAT J)"
  "keeps_alt (OP_CHECKMULTISIG J)"
  "keeps_alt (OP_CHECKMULTISIGVERIFY J)"
  "keeps_alt (OP_CHECKSIG)"
  "keeps_alt (OP_CHECKSIGADD J)"
  "keeps_alt (OP_CHECKSIGVERIFY J)"
  "keeps_alt (OP_DEPTH)"
  "keeps_alt (OP_DROP)"
  "keeps_alt (OP_DUP)"
  "keeps_alt (OP_ELSE)"
  "keeps_alt (OP_ENDIF)"
  "keeps_alt (OP_EQUAL)"
  "keeps_alt (OP_EQUALVERIFY J)"
  "keeps_alt (OP_GREATERTHAN J)"
  "keeps_alt (OP_GREATERTHANOREQUAL J)"
  "keeps_alt (OP_HASH J)"
  "keeps_alt (OP_IF J)"
  "keeps_alt (OP_IFDUP J)"
  "keeps_alt (OP_LESSTHAN J)"
  "keeps_alt (OP_LESSTHANOREQUAL J)"
  "keeps_alt (OP_MAX J)"
  "keeps_alt (OP_MIN J)"
  "keeps_alt (OP_NEGATE J)"
  "keeps_alt (OP_NIP)"
  "keeps_alt (OP_NOP)"
  "keeps_alt (OP_NOT J)"
  "keeps_alt (OP_NOTIF J)"
  "keeps_alt (OP_NUMEQUAL J)"
  "keeps_alt (OP_NUMEQUALVERIFY J)"
  "keeps_alt (OP_NUMNOTEQUAL J)"
  "keeps_alt (OP_OVER)"
  "keeps_alt (OP_PICK J)"
  "keeps_alt (OP_ROLL J)"
  "keeps_alt (OP_ROT)"
  "keeps_alt (OP_SIZE J)"
  "keeps_alt (OP_SUB J)"
  "keeps_alt (OP_SWAP)"
  "keeps_alt (OP_TUCK)"
  "keeps_alt (OP_VERIFY J)"
  "keeps_alt (OP_WITHIN J)"
  by (auto simp: keeps_alt_def deepCopy_def error_def
       OP_0NOTEQUAL_def OP_1ADD_def OP_1SUB_def OP_2DROP_def OP_2DUP_def OP_2OVER_def
       OP_2ROT_def OP_2SWAP_def OP_3DUP_def OP_ABS_def OP_ADD_def OP_BOOLAND_def
       OP_BOOLOR_def OP_CAT_def OP_CHECKMULTISIG_def OP_CHECKMULTISIGVERIFY_def
       OP_CHECKSIG_def OP_CHECKSIGADD_def OP_CHECKSIGVERIFY_def OP_DEPTH_def OP_DROP_def
       OP_DUP_def OP_ELSE_def OP_ENDIF_def OP_EQUAL_def OP_EQUALVERIFY_def
       OP_GREATERTHAN_def OP_GREATERTHANOREQUAL_def OP_HASH_def OP_IF_def OP_IFDUP_def
       OP_LESSTHAN_def OP_LESSTHANOREQUAL_def OP_MAX_def OP_MIN_def OP_NEGATE_def
       OP_NIP_def OP_NOP_def OP_NOT_def OP_NOTIF_def OP_NUMEQUAL_def OP_NUMEQUALVERIFY_def
       OP_NUMNOTEQUAL_def OP_OVER_def OP_PICK_def OP_ROLL_def OP_ROT_def OP_SIZE_def
       OP_SUB_def OP_SWAP_def OP_TUCK_def OP_VERIFY_def OP_WITHIN_def
       split: if_splits prod.splits option.splits
       dest!: try_catch_eq_InrD bnd_eq_InrD)

lemma opcode_binary:
  "computes_binary J (\<lambda>l r. js_add l r) (OP_ADD J)"
  "computes_binary J (\<lambda>l r. js_sub l r) (OP_SUB J)"
  "computes_binary J (\<lambda>l r. bool_num (js_neq l (Fin 0) \<and> js_neq r (Fin 0))) (OP_BOOLAND J)"
  "computes_binary J (\<lambda>l r. bool_num (js_neq l (Fin 0) \<or> js_neq r (Fin 0))) (OP_BOOLOR J)"
  "computes_binary J (\<lambda>l r. bool_num (js_gt l r)) (OP_GREATERTHAN J)"
  "computes_binary J (\<lambda>l r. bool_num (js_ge l r)) (OP_GREATERTHANOREQUAL J)"
  "computes_binary J (\<lambda>l r. bool_num (js_lt l r)) (OP_LESSTHAN J)"
  "computes_binary J (\<lambda>l r. bool_num (js_le l r)) (OP_LESSTHANOREQUAL J)"
  "computes_binary J (\<lambda>l r. Math_min l r) (OP_MIN J)"
  "computes_binary J (\<lambda>l r. Math_max l r) (OP_MAX J)"
  "computes_binary J (\<lambda>l r. bool_num (js_eq l r)) (OP_NUMEQUAL J)"
  "computes_binary J (\<lambda>l r. bool_num (js_neq l r)) (OP_NUMNOTEQUAL J)"
  by (auto simp: computes_binary_def deepCopy_def stack_size_def return_state_def push_def
       OP_ADD_def OP_SUB_def OP_BOOLAND_def OP_BOOLOR_def OP_GREATERTHAN_def
       OP_GREATERTHANOREQUAL_def OP_LESSTHAN_def OP_LESSTHANOREQUAL_def OP_MIN_def OP_MAX_def
       OP_NUMEQUAL_def OP_NUMNOTEQUAL_def Math_max_commute[of a b for a b]
       Math_min_commute conj_commute disj_commute)

lemma binary_table:
  "list_all (\<lambda>(name, g).
      case map_of (opcodeList J) name of None \<Rightarrow> False | Some f \<Rightarrow> computes_binary J g f)
    binary_numeric_spec"
  unfolding binary_numeric_spec_def by (simp add: opcodeList_lookup opcode_binary)

lemma underflow_table:
  "list_all (\<lambda>(name, n, m).
      case map_of (opcodeList J) name of None \<Rightarrow> False | Some f \<Rightarrow> underflows_below n m f)
    operand_guard"
  unfolding operand_guard_def
  by (simp add: opcodeList_lookup opcode_underflow del: One_nat_def)

lemma keeps_alt_table:
  "list_all (\<lambda>(name, f).
      name = ''OP_TOALTSTACK'' \<or> name = ''OP_FROMALTSTACK'' \<or> keeps_alt f) (opcodeList J)"
  unfolding opcodeList_def by (simp add: opcode_keeps_alt)

section \<open>The properties\<close>

subsection \<open>Stack underflow\<close>

text \<open>
  Claim C1. For every opcode that requires \<open>n\<close> operands, applying it to a state whose
  main stack has depth below \<open>n\<close> returns the stack-underflow error of that opcode, and
  the state returned beside the error is the input state: both stacks and the branch flag
  are unchanged.
\<close>

theorem underflow_preserves_state:
  assumes "map_of (opcodeList J) name = Some f"
    and "map_of operand_guard name = Some (n, m)"
    and "stack_size (main s) < n"
  shows "f s = Inl (m, s)"
proof -
  from assms(2) have "(name, n, m) \<in> set operand_guard"
    by (rule map_of_SomeD)
  with underflow_table[of J] have "underflows_below n m f"
    using assms(1) by (auto simp: list_all_iff)
  with assms(3) show ?thesis
    by (simp add: underflows_below_def)
qed

theorem underflow_preserves_state_witness:
  "map_of (opcodeList decimal_builtins) ''OP_ADD'' = Some (OP_ADD decimal_builtins) \<and>
   map_of operand_guard ''OP_ADD'' = Some (2, Msg ''Need two items for ADD'') \<and>
   stack_size (main \<lparr>main = [Str ''3''], alt = [], if_result = None\<rparr>) < 2 \<and>
   OP_ADD decimal_builtins \<lparr>main = [Str ''3''], alt = [], if_result = None\<rparr> =
     Inl (Msg ''Need two items for ADD'', \<lparr>main = [Str ''3''], alt = [], if_result = None\<rparr>)"
proof -
  let ?s = "\<lparr>main = [Str ''3''], alt = [], if_result = None\<rparr>"
  have a: "map_of (opcodeList decimal_builtins) ''OP_ADD'' = Some (OP_ADD decimal_builtins)"
    by (rule opcodeList_lookup)
  have b: "map_of operand_guard ''OP_ADD'' = Some (2, Msg ''Need two items for ADD'')"
    by (simp add: operand_guard_def)
  have c: "stack_size (main ?s) < 2"
    by (simp add: stack_size_def)
  from a b c underflow_preserves_state[OF a b c] show ?thesis
    by simp
qed

subsection \<open>Operand order of the binary numeric opcodes\<close>

text \<open>
  Claim C2. For every binary numeric opcode (ADD, SUB, BOOLAND, BOOLOR, GREATERTHAN,
  GREATERTHANOREQUAL, LESSTHAN, LESSTHANOREQUAL, MIN, MAX, NUMEQUAL, NUMNOTEQUAL) applied
  to a state whose top two values coerce to the numbers \<open>a\<close> (top) and \<open>b\<close> (second),
  the two values are replaced by the result of the specified operation with \<open>b\<close> as the
  left operand and \<open>a\<close> as the right one; \<open>OP_SUB\<close> pushes \<open>b - a\<close>.
\<close>

theorem binary_operand_order:
  assumes "map_of (opcodeList J) name = Some f"
    and "map_of binary_numeric_spec name = Some g"
    and "main s = rest @ [vb, va]"
    and "to_number J va = Inr a"
    and "to_number J vb = Inr b"
  shows "f s = Inr (s\<lparr>main := rest @ [Num (g b a)]\<rparr>)"
proof -
  from assms(2) have "(name, g) \<in> set binary_numeric_spec"
    by (rule map_of_SomeD)
  with binary_table[of J] have "computes_binary J g f"
    using assms(1) by (auto simp: list_all_iff)
  with assms(3,4,5) show ?thesis
    unfolding computes_binary_def by blast
qed

theorem binary_operand_order_witness:
  "map_of (opcodeList decimal_builtins) ''OP_SUB'' = Some (OP_SUB decimal_builtins) \<and>
   map_of binary_numeric_spec ''OP_SUB'' = Some js_sub \<and>
   to_number decimal_builtins (Str ''4'') = Inr (Fin 4) \<and>
   to_number decimal_builtins (Str ''10'') = Inr (Fin 10) \<and>
   js_sub (Fin 10) (Fin 4) = Fin 6 \<and>
   OP_SUB decimal_builtins \<lparr>main = [Str ''10'', Str ''4''], alt = [], if_result = None\<rparr> =
     Inr \<lparr>main = [Num (Fin 6)], alt = [], if_result = None\<rparr>"
proof -
  let ?s = "\<lparr>main = [Str ''10'', Str ''4''], alt = [], if_result = None\<rparr>"
  have a: "map_of (opcodeList decimal_builtins) ''OP_SUB'' = Some (OP_SUB decimal_builtins)"
    by (rule opcodeList_lookup)
  have b: "map_of binary_numeric_spec ''OP_SUB'' = Some js_sub"
    by (simp add: binary_numeric_spec_def)
  have c: "main ?s = [] @ [Str ''10'', Str ''4'']"
    by simp
  have d: "js_sub (Fin 10) (Fin 4) = Fin 6"
    by (simp add: js_sub_def round_double_exact)
  from a b d
    binary_operand_order[OF a b c decimal_to_number_digits(4) decimal_to_number_digits(6)]
  show ?thesis
    by (simp add: decimal_to_number_digits)
qed

subsection \<open>The driver on \<open>OP_IF\<close> and \<open>OP_NOTIF\<close>\<close>

text \<open>
  Claim C3. When the instruction normalizes to IF or NOTIF, the driver executes the opcode
  whatever \<open>shouldContinue\<close> is: the top value of the main stack is popped and coerced to
  a number, the branch flag becomes (value \<open>\<noteq>\<close> 0) for IF and (value = 0) for NOTIF, and
  \<open>shouldContinue\<close> becomes the new branch flag.
\<close>

theorem if_notif_in_driver:
  assumes "convertOpcode tok = Some c"
    and "op c = ''OP_IF'' \<or> op c = ''OP_NOTIF''"
    and "main (innerState g) = rest @ [v]"
    and "to_number J v = Inr n"
  shows "processLine J (Some tok) g =
     (Inr (Ok True),
      \<lparr>shouldContinue = (if op c = ''OP_IF'' then n \<noteq> Fin 0 else n = Fin 0),
       shouldRender = False,
       innerState = (innerState g)
         \<lparr>main := rest,
          if_result := Some (if op c = ''OP_IF'' then n \<noteq> Fin 0 else n = Fin 0)\<rparr>\<rparr>)"
proof -
  from assms(2) show ?thesis
  proof
    assume c: "op c = ''OP_IF''"
    show ?thesis
      using assms(1) OP_IF_result[OF assms(3,4)]
      by (simp add: processLine_def c opcodeList_lookup Let_def)
  next
    assume c: "op c = ''OP_NOTIF''"
    show ?thesis
      using assms(1) OP_NOTIF_result[OF assms(3,4)]
      by (simp add: processLine_def c opcodeList_lookup Let_def)
  qed
qed

theorem if_notif_in_driver_witness:
  "convertOpcode ''OP_IF'' = Some \<lparr>op = ''OP_IF'', val = None\<rparr> \<and>
   to_number decimal_builtins (Str ''5'') = Inr (Fin 5) \<and>
   processLine decimal_builtins (Some ''OP_IF'')
     \<lparr>shouldContinue = False, shouldRender = True,
      innerState = \<lparr>main = [Str ''3'', Str ''5''], alt = [], if_result = None\<rparr>\<rparr> =
     (Inr (Ok True),
      \<lparr>shouldContinue = True, shouldRender = False,
       innerState = \<lparr>main = [Str ''3''], alt = [], if_result = Some True\<rparr>\<rparr>)"
proof -
  let ?g = "\<lparr>shouldContinue = False, shouldRender = True,
      innerState = \<lparr>main = [Str ''3'', Str ''5''], alt = [], if_result = None\<rparr>\<rparr>"
  let ?c = "\<lparr>op = ''OP_IF'', val = None\<rparr>"
  have b: "op ?c = ''OP_IF'' \<or> op ?c = ''OP_NOTIF''"
    by simp
  have c: "main (innerState ?g) = [Str ''3''] @ [Str ''5'']"
    by simp
  from if_notif_in_driver[OF convertOpcode_plain(1) b c decimal_to_number_digits(5)]
  show ?thesis
    by (simp add: convertOpcode_plain decimal_to_number_digits)
qed

subsection \<open>\<open>OP_ELSE\<close> without an open branch\<close>

text \<open>
  Claim C4 says that ELSE with no open branch flag always fails with the error of an ELSE
  without IF, also when the driver processes it. The opcode function does fail, but the
  driver does not call it: on ELSE it inverts \<open>shouldContinue\<close> and returns \<open>Ok\<close>, so
  no error comes out of the driver.
\<close>

theorem else_without_if_counterexample:
  "if_result \<lparr>main = [Str ''3''], alt = [], if_result = None\<rparr> = None \<and>
   processLine decimal_builtins (Some ''OP_ELSE'')
     \<lparr>shouldContinue = True, shouldRender = True,
      innerState = \<lparr>main = [Str ''3''], alt = [], if_result = None\<rparr>\<rparr> =
     (Inr (Ok True),
      \<lparr>shouldContinue = False, shouldRender = False,
       innerState = \<lparr>main = [Str ''3''], alt = [], if_result = None\<rparr>\<rparr>)"
  by (simp add: processLine_def convertOpcode_plain opcodeList_lookup Let_def)

text \<open>
  Claim C4, amended. The opcode function \<open>OP_ELSE\<close>, applied to a state with no branch
  flag, returns the error \<open>ELSE without matching IF\<close> beside the unchanged state, for every
  content of the stacks. The driver, on an instruction that normalizes to ELSE, does not
  execute the opcode: it inverts \<open>shouldContinue\<close>, clears \<open>shouldRender\<close>, leaves the
  execution state as it is and reports no error.
\<close>

theorem else_without_if:
  "(if_result s = None \<longrightarrow> OP_ELSE s = Inl (Msg ''ELSE without matching IF'', s)) \<and>
   (convertOpcode tok = Some c \<and> op c = ''OP_ELSE'' \<longrightarrow>
      processLine J (Some tok) g =
        (Inr (Ok True), g\<lparr>shouldContinue := \<not> shouldContinue g, shouldRender := False\<rparr>))"
  by (simp add: OP_ELSE_def error_def processLine_def opcodeList_lookup Let_def)

theorem else_without_if_witness:
  "if_result \<lparr>main = [Str ''3''], alt = [], if_result = None\<rparr> = None \<and>
   OP_ELSE \<lparr>main = [Str ''3''], alt = [], if_result = None\<rparr> =
     Inl (Msg ''ELSE without matching IF'', \<lparr>main = [Str ''3''], alt = [], if_result = None\<rparr>) \<and>
   convertOpcode ''OP_ELSE'' = Some \<lparr>op = ''OP_ELSE'', val = None\<rparr> \<and>
   op \<lparr>op = ''OP_ELSE'', val = None\<rparr> = ''OP_ELSE'' \<and>
   processLine decimal_builtins (Some ''OP_ELSE'')
     \<lparr>shouldContinue = False, shouldRender = True,
      innerState = \<lparr>main = [Str ''3''], alt = [], if_result = None\<rparr>\<rparr> =
     (Inr (Ok True),
      \<lparr>shouldContinue = True, shouldRender = False,
       innerState = \<lparr>main = [Str ''3''], alt = [], if_result = None\<rparr>\<rparr>)"
  using else_without_if[of "\<lparr>main = [Str ''3''], alt = [], if_result = None\<rparr>" "''OP_ELSE''"
      "\<lparr>op = ''OP_ELSE'', val = None\<rparr>" decimal_builtins
      "\<lparr>shouldContinue = False, shouldRender = True,
        innerState = \<lparr>main = [Str ''3''], alt = [], if_result = None\<rparr>\<rparr>"]
  by (simp add: convertOpcode_plain)

subsection \<open>\<open>OP_VERIFY\<close>\<close>

text \<open>
  Claim C5. \<open>OP_VERIFY\<close> on a main stack whose single element coerces to 5 succeeds and
  leaves the main stack empty; on a main stack whose single element coerces to 0 it returns
  the error \<open>Verification failed\<close>, and the state returned with the error still has that
  element on the main stack.
\<close>

theorem verify_scenario:
  "(to_number J v = Inr (Fin 5) \<longrightarrow>
      OP_VERIFY J \<lparr>main = [v], alt = a, if_result = fl\<rparr> =
        Inr \<lparr>main = [], alt = a, if_result = fl\<rparr>) \<and>
   (to_number J v = Inr (Fin 0) \<longrightarrow>
      OP_VERIFY J \<lparr>main = [v], alt = a, if_result = fl\<rparr> =
        Inl (Msg ''Verification failed'', \<lparr>main = [v], alt = a, if_result = fl\<rparr>))"
  by (simp add: OP_VERIFY_def deepCopy_def stack_size_def return_state_def return_error_def
       error_def js_eq_zero)

theorem verify_scenario_witness:
  "to_number decimal_builtins (Str ''5'') = Inr (Fin 5) \<and>
   OP_VERIFY decimal_builtins \<lparr>main = [Str ''5''], alt = [], if_result = None\<rparr> =
     Inr \<lparr>main = [], alt = [], if_result = None\<rparr> \<and>
   to_number decimal_builtins (Str ''0'') = Inr (Fin 0) \<and>
   OP_VERIFY decimal_builtins \<lparr>main = [Str ''0''], alt = [], if_result = None\<rparr> =
     Inl (Msg ''Verification failed'', \<lparr>main = [Str ''0''], alt = [], if_result = None\<rparr>)"
  using verify_scenario[of decimal_builtins "Str ''5''" "[]" None]
    verify_scenario[of decimal_builtins "Str ''0''" "[]" None]
  by (simp add: decimal_to_number_digits)

subsection \<open>Numeric literals beyond the bound\<close>

text \<open>
  Claim C6 says that a numeric literal within 4160 bits normalizes to \<open>OP_PUSHBYTES\<close> with
  its value, and that a literal beyond that bound is not converted but passes through as
  an unrecognized token. The converter tests the length of \<open>num.toString(2)\<close>, where \<open>num\<close>
  is a double: a literal of \<open>2 ^ 1024\<close> or more evaluates to \<open>Infinity\<close>, which prints as
  eight characters, so the test never fails. The hexadecimal literal of \<open>2 ^ 4160\<close>, a
  number of 4161 bits, is converted to the push of \<open>Infinity\<close>.
\<close>

theorem literal_beyond_bound_is_pushed:
  "convertOpcode (''0x1'' @ replicate 1040 (CHR ''0'')) =
     Some \<lparr>op = ''OP_PUSHBYTES'', val = Some PInf\<rparr>"
proof -
  let ?ds = "CHR ''1'' # replicate 1040 (CHR ''0'')"
  let ?tok = "CHR ''0'' # CHR ''x'' # ?ds"
  have tr: "trim ?tok = ?tok"
    by (rule trim_id) (simp_all add: is_white_space_def)
  have nop: "convertNop ?tok = ?tok"
    by (simp add: convertNop_def tr)
  have hash: "convertHash ?tok = ?tok"
    by (simp add: convertHash_def tr)
  have no_op: "\<not> has_OP_word ?tok"
    by (auto dest!: has_OP_wordD)
  have hex: "list_all is_hex ?ds"
    by (simp add: list_all_iff is_hex_def)
  have run: "run_then_boundary is_hex ?ds"
  proof -
    have "takeWhile is_hex ?ds = ?ds"
      using hex by (simp only: takeWhile_eq_all_conv list_all_iff)
    moreover have "dropWhile is_hex ?ds = []"
      using hex by (simp only: dropWhile_eq_Nil_conv list_all_iff)
    ultimately show ?thesis
      by (simp only: run_then_boundary_def) simp
  qed
  have search: "literal_search True ?tok"
    using run by (simp add: literal_at_def)
  have ev: "eval_literal ?tok = Some PInf"
    using hex by (simp add: eval_literal_def hex_digits_value number_literal_overflow sixteen_pow)
  have "convertNumbers ?tok = Some \<lparr>op = ''OP_PUSHBYTES'', val = Some PInf\<rparr>"
    using no_op search by (simp add: convertNumbers_def ev toString2_length_def)
  then show ?thesis
    by (simp add: convertOpcode_def nop hash)
qed

subsection \<open>\<open>OP_ADD\<close> followed by \<open>OP_SUB\<close>\<close>

text \<open>
  Claim C7 says that for every state whose top two values coerce to numbers \<open>a\<close> (top) and
  \<open>b\<close> (second), ADD, then the push of \<open>a\<close>, then SUB leave \<open>b\<close> on top. The sum is
  rounded to a double: with \<open>b = 1\<close> and \<open>a = 2 ^ 53\<close> the sum is \<open>2 ^ 53\<close> again, and the
  subtraction leaves 0.
\<close>

theorem add_then_sub_counterexample:
  "to_number decimal_builtins (Str ''9007199254740992'') = Inr (Fin 9007199254740992) \<and>
   to_number decimal_builtins (Str ''1'') = Inr (Fin 1) \<and>
   OP_ADD decimal_builtins
     \<lparr>main = [Str ''1'', Str ''9007199254740992''], alt = [], if_result = None\<rparr> =
     Inr \<lparr>main = [Num (Fin 9007199254740992)], alt = [], if_result = None\<rparr> \<and>
   OP_SUB decimal_builtins
     (OP_NUMBER (Fin 9007199254740992)
        \<lparr>main = [Num (Fin 9007199254740992)], alt = [], if_result = None\<rparr>) =
     Inr \<lparr>main = [Num (Fin 0)], alt = [], if_result = None\<rparr> \<and>
   Num (Fin 0) \<noteq> Num (Fin 1)"
  by (simp add: decimal_to_number_digits OP_ADD_def OP_SUB_def OP_NUMBER_def deepCopy_def
       stack_size_def return_state_def push_def js_sub_def round_double_2_53_plus_1
       round_double_exact
       pop_snoc2[of "[]", simplified])

text \<open>
  Claim C7, amended. For every state whose top two values coerce to finite numbers \<open>a\<close>
  (top) and \<open>b\<close> (second) such that the sum \<open>b + a\<close> is a double, that is, the addition
  does not round (as for integers when \<open>a\<close>, \<open>b\<close> and \<open>b + a\<close> are below \<open>2 ^ 53\<close> in
  magnitude), ADD, then the push of \<open>a\<close>, then SUB leave \<open>b\<close> on top of the rest of the
  stack. (\<open>b\<close> is a double: rounding leaves it as it is.)
\<close>

theorem add_then_sub_restores:
  assumes "main s = rest @ [vb, va]"
    and "to_number J va = Inr (Fin a)"
    and "to_number J vb = Inr (Fin b)"
    and "round_double (b + a) = Fin (b + a)"
    and "round_double b = Fin b"
  shows "OP_ADD J s = Inr (s\<lparr>main := rest @ [Num (Fin (b + a))]\<rparr>) \<and>
         OP_SUB J (OP_NUMBER (Fin a) (s\<lparr>main := rest @ [Num (Fin (b + a))]\<rparr>)) =
           Inr (s\<lparr>main := rest @ [Num (Fin b)]\<rparr>)"
  using assms
  by (simp add: OP_ADD_def OP_SUB_def OP_NUMBER_def deepCopy_def stack_size_def return_state_def
       push_def js_sub_def)

theorem add_then_sub_restores_witness:
  "to_number decimal_builtins (Str ''4'') = Inr (Fin 4) \<and>
   to_number decimal_builtins (Str ''3'') = Inr (Fin 3) \<and>
   round_double (3 + 4) = Fin (3 + 4) \<and>
   round_double 3 = Fin 3 \<and>
   OP_ADD decimal_builtins \<lparr>main = [Str ''3'', Str ''4''], alt = [], if_result = None\<rparr> =
     Inr \<lparr>main = [Num (Fin 7)], alt = [], if_result = None\<rparr> \<and>
   OP_SUB decimal_builtins
     (OP_NUMBER (Fin 4) \<lparr>main = [Num (Fin 7)], alt = [], if_result = None\<rparr>) =
     Inr \<lparr>main = [Num (Fin 3)], alt = [], if_result = None\<rparr>"
proof -
  let ?s = "\<lparr>main = [Str ''3'', Str ''4''], alt = [], if_result = None\<rparr>"
  have a: "main ?s = [] @ [Str ''3'', Str ''4'']"
    by simp
  have d: "round_double (3 + 4) = Fin (3 + 4)"
    by (simp add: round_double_exact)
  have e: "round_double 3 = Fin 3"
    by (simp add: round_double_exact)
  from d e
    add_then_sub_restores[OF a decimal_to_number_digits(4) decimal_to_number_digits(3) d e]
  show ?thesis
    by (simp add: decimal_to_number_digits)
qed

subsection \<open>Instructions in a branch that is not taken\<close>

text \<open>
  Claim C8. While \<open>shouldContinue\<close> is false, processing any instruction other than IF,
  NOTIF, ELSE and ENDIF does not execute its opcode body: the execution state (both stacks
  and the branch flag) after the instruction equals the state before it, and no error is
  produced. The code breaks the last part on the line \<open>OP_0o7\<close>. The driver's pattern
  matches the whole word through its alternative \<open>OP_\w+\<close> and hands it to the converter.
  The converter's pattern of literals repeats the three alternatives of the driver's, but
  its first one, \<open>0[oO][0-7]+\b\<close>, has lost the leading word boundary that the driver
  writes, \<open>\b0[oO][0-7]+\b\<close>, and that both patterns keep on the other two alternatives:
  it matches the end of the word, \<open>eval\<close> is applied to the whole word and raises a
  \<open>ReferenceError\<close>. This happens before \<open>shouldContinue\<close> is read, so the skipped line
  throws: the state is unchanged, but an error is produced.
\<close>

theorem skipped_line_eval_raises:
  "processLine decimal_builtins (Some ''OP_0o7'')
     \<lparr>shouldContinue = False, shouldRender = False,
      innerState = \<lparr>main = [], alt = [], if_result = Some False\<rparr>\<rparr> =
     (Inl EvalRaised,
      \<lparr>shouldContinue = False, shouldRender = False,
       innerState = \<lparr>main = [], alt = [], if_result = Some False\<rparr>\<rparr>)"
  by (simp add: processLine_def convertOpcode_def convertNop_def convertHash_def trim_def
       is_white_space_def convertNumbers_def literal_at_def run_then_boundary_def is_hex_def
       is_octal_def is_digit_def word_char_def named_number_def eval_literal_def
       number_literal_def decimal_literal_def)

text \<open>
  On every instruction on which the converter returns, the line is skipped as the
  specification says: while \<open>shouldContinue\<close> is false, an instruction that normalizes to
  anything but IF, NOTIF, ELSE and ENDIF leaves the execution state as it was and produces
  no error, and \<open>shouldContinue\<close> stays false.
\<close>

lemma skipped_when_converted:
  assumes "\<not> shouldContinue g"
    and "convertOpcode tok = Some c"
    and "op c \<noteq> ''OP_IF''" and "op c \<noteq> ''OP_NOTIF''"
    and "op c \<noteq> ''OP_ELSE''" and "op c \<noteq> ''OP_ENDIF''"
  shows "fst (processLine J (Some tok) g) = Inr (Ok True) \<and>
         innerState (snd (processLine J (Some tok) g)) = innerState g \<and>
         \<not> shouldContinue (snd (processLine J (Some tok) g))"
  using assms by (simp add: processLine_def Let_def split: option.splits)

lemma skipped_when_converted_OP_ADD:
  "\<not> shouldContinue \<lparr>shouldContinue = False, shouldRender = False,
      innerState = \<lparr>main = [], alt = [], if_result = Some False\<rparr>\<rparr> \<and>
   convertOpcode ''OP_ADD'' = Some \<lparr>op = ''OP_ADD'', val = None\<rparr> \<and>
   processLine decimal_builtins (Some ''OP_ADD'')
     \<lparr>shouldContinue = False, shouldRender = False,
      innerState = \<lparr>main = [], alt = [], if_result = Some False\<rparr>\<rparr> =
     (Inr (Ok True),
      \<lparr>shouldContinue = False, shouldRender = True,
       innerState = \<lparr>main = [], alt = [], if_result = Some False\<rparr>\<rparr>)"
proof -
  let ?g = "\<lparr>shouldContinue = False, shouldRender = False,
      innerState = \<lparr>main = [], alt = [], if_result = Some False\<rparr>\<rparr>"
  let ?c = "\<lparr>op = ''OP_ADD'', val = None\<rparr>"
  have a: "\<not> shouldContinue ?g"
    by simp
  have n: "op ?c \<noteq> ''OP_IF''" "op ?c \<noteq> ''OP_NOTIF''" "op ?c \<noteq> ''OP_ELSE''"
    "op ?c \<noteq> ''OP_ENDIF''"
    by simp_all
  have run: "processLine decimal_builtins (Some ''OP_ADD'') ?g =
      (Inr (Ok True), ?g\<lparr>shouldRender := True\<rparr>)"
    by (simp add: processLine_def convertOpcode_plain opcodeList_lookup Let_def)
  from skipped_when_converted[OF a convertOpcode_plain(3) n, of decimal_builtins] run
  show ?thesis
    by (simp add: convertOpcode_plain)
qed

subsection \<open>The alt stack\<close>

text \<open>
  Claim C9. Every opcode of the semantics table except \<open>OP_TOALTSTACK\<close> and
  \<open>OP_FROMALTSTACK\<close> leaves the alt stack unchanged: whenever such an opcode succeeds, the
  alt stack of the resulting state is the alt stack of the input state. This holds for the
  entries of \<open>opcodeList\<close> and for the opcodes with an immediate of \<open>customOpcodeList\<close>,
  which always succeed.
\<close>

theorem alt_stack_frame:
  "(map_of (opcodeList J) name = Some f \<and> name \<noteq> ''OP_TOALTSTACK'' \<and>
    name \<noteq> ''OP_FROMALTSTACK'' \<and> f s = Inr s' \<longrightarrow> alt s' = alt s) \<and>
   (map_of customOpcodeList name = Some h \<longrightarrow> alt (h num s) = alt s)"
proof (intro conjI impI)
  assume a: "map_of (opcodeList J) name = Some f \<and> name \<noteq> ''OP_TOALTSTACK'' \<and>
    name \<noteq> ''OP_FROMALTSTACK'' \<and> f s = Inr s'"
  then have "(name, f) \<in> set (opcodeList J)"
    by (auto dest: map_of_SomeD)
  with keeps_alt_table[of J] have "keeps_alt f"
    using a by (auto simp: list_all_iff)
  with a show "alt s' = alt s"
    by (auto simp: keeps_alt_def)
next
  assume "map_of customOpcodeList name = Some h"
  then show "alt (h num s) = alt s"
    by (auto simp: customOpcodeList_def OP_NUMBER_def deepCopy_def split: if_splits)
qed

theorem alt_stack_frame_witness:
  "map_of (opcodeList decimal_builtins) ''OP_ADD'' = Some (OP_ADD decimal_builtins) \<and>
   ''OP_ADD'' \<noteq> ''OP_TOALTSTACK'' \<and> ''OP_ADD'' \<noteq> ''OP_FROMALTSTACK'' \<and>
   OP_ADD decimal_builtins \<lparr>main = [Str ''3'', Str ''4''], alt = [Str ''9''], if_result = None\<rparr> =
     Inr \<lparr>main = [Num (Fin 7)], alt = [Str ''9''], if_result = None\<rparr> \<and>
   alt \<lparr>main = [Num (Fin 7)], alt = [Str ''9''], if_result = None\<rparr> =
     alt \<lparr>main = [Str ''3'', Str ''4''], alt = [Str ''9''], if_result = None\<rparr> \<and>
   map_of customOpcodeList ''OP_NUMBER'' = Some OP_NUMBER \<and>
   alt (OP_NUMBER (Fin 2) \<lparr>main = [Str ''3''], alt = [Str ''9''], if_result = None\<rparr>) =
     alt \<lparr>main = [Str ''3''], alt = [Str ''9''], if_result = None\<rparr>"
proof -
  let ?s = "\<lparr>main = [Str ''3'', Str ''4''], alt = [Str ''9''], if_result = None\<rparr>"
  let ?s' = "\<lparr>main = [Num (Fin 7)], alt = [Str ''9''], if_result = None\<rparr>"
  let ?t = "\<lparr>main = [Str ''3''], alt = [Str ''9''], if_result = None\<rparr>"
  have a: "map_of (opcodeList decimal_builtins) ''OP_ADD'' = Some (OP_ADD decimal_builtins)"
    by (rule opcodeList_lookup)
  have r: "OP_ADD decimal_builtins ?s = Inr ?s'"
    by (simp add: OP_ADD_def deepCopy_def stack_size_def return_state_def push_def
         decimal_to_number_digits round_double_exact pop_snoc2[of "[]", simplified])
  have c: "map_of customOpcodeList ''OP_NUMBER'' = Some OP_NUMBER"
    by (simp add: customOpcodeList_def)
  from a r c
    alt_stack_frame[of decimal_builtins "''OP_ADD''" "OP_ADD decimal_builtins" ?s ?s']
    alt_stack_frame[where name = "''OP_NUMBER''" and h = OP_NUMBER and num = "Fin 2" and s = ?t]
  show ?thesis
    by simp
qed

subsection \<open>\<open>OP_PICK\<close> with a negative index\<close>

text \<open>
  Claim C10. There is an input on which \<open>OP_PICK\<close> succeeds although the popped index is
  out of bounds: on the main stack \<open>[7, -1]\<close> the index coerces to \<open>-1\<close>, one element
  remains, the depth check \<open>size < n + 1\<close> passes, \<open>peekNth\<close> reads the array one position
  past the top of the stack, and \<open>undefined\<close> is pushed instead of an error being returned.
\<close>

theorem pick_negative_index:
  "OP_PICK decimal_builtins \<lparr>main = [Str ''7'', Str ''-1''], alt = [], if_result = None\<rparr> =
     Inr \<lparr>main = [Str ''7'', Undefined], alt = [], if_result = None\<rparr> \<and>
   to_number decimal_builtins (Str ''-1'') = Inr (Fin (- 1)) \<and>
   \<not> js_lt (size_num [Str ''7'']) (js_add (Fin (- 1)) (Fin 1)) \<and>
   peekNth (Fin (- 1)) [Str ''7''] = Inr (array_get [Str ''7''] (Fin 1)) \<and>
   array_get [Str ''7''] (Fin 1) = Undefined"
  by (simp add: OP_PICK_def deepCopy_def stack_size_def size_num_def return_state_def push_def
       to_number_def decimal_builtins_def decimal_Number_def is_digit_def number_literal_def
       digits_value_def digit_value_def round_double_exact isNaN_def peekNth_def js_le_def
       js_eq_def js_sub_def array_get_def
       pop_snoc[of "[Str ''7'']" "Str ''-1''", simplified])

end
